theory Spec2Isabelle
  imports Complex_Main
begin

section \<open>Numbers as the program has them\<close>

text \<open>
  The program computes with Python floats and numpy \<open>float64\<close> arrays. A finite value is
  modelled by the real number it stands for (rounding and the sign of zero are not
  modelled; overflow is modelled where the analyzer computes its bin width and the bounds
  of its bins, the one place where it decides whether a call raises); the three special
  values are kept, because numpy arithmetic does not raise on a zero divisor or an invalid
  operand but yields \<open>inf\<close> or \<open>nan\<close>, and every comparison with \<open>nan\<close> is false.
\<close>

datatype npfloat = Fin real | PInf | NInf | NaN

fun fadd :: "npfloat \<Rightarrow> npfloat \<Rightarrow> npfloat" where
  "fadd (Fin a) (Fin b) = Fin (a + b)"
| "fadd NaN _ = NaN"
| "fadd _ NaN = NaN"
| "fadd PInf NInf = NaN"
| "fadd NInf PInf = NaN"
| "fadd PInf _ = PInf"
| "fadd _ PInf = PInf"
| "fadd NInf _ = NInf"
| "fadd _ NInf = NInf"

fun fge :: "npfloat \<Rightarrow> npfloat \<Rightarrow> bool" where
  "fge (Fin a) (Fin b) = (a \<ge> b)"
| "fge NaN _ = False"
| "fge _ NaN = False"
| "fge PInf _ = True"
| "fge _ NInf = True"
| "fge NInf _ = False"
| "fge _ PInf = False"

fun fgt :: "npfloat \<Rightarrow> npfloat \<Rightarrow> bool" where
  "fgt (Fin a) (Fin b) = (a > b)"
| "fgt NaN _ = False"
| "fgt _ NaN = False"
| "fgt NInf _ = False"
| "fgt _ PInf = False"
| "fgt PInf _ = True"
| "fgt _ NInf = True"

section \<open>statistic.py: merging of low-expectation intervals\<close>

text \<open>
  \<open>StatisticalAnalyzer._merge_intervals\<close>. The loop over \<open>zip(ni_obs, ni_exp)\<close> carries the
  two output lists and the two running sums; \<open>merge_loop\<close> returns all four when the
  pairs are used up. The observed counts are the integers of \<open>np.histogram\<close>, the
  expected counts are floats.
\<close>

fun merge_loop ::
  "(int \<times> npfloat) list \<Rightarrow> int list \<Rightarrow> npfloat list \<Rightarrow> int \<Rightarrow> npfloat
     \<Rightarrow> int list \<times> npfloat list \<times> int \<times> npfloat" where
  "merge_loop [] obs_m exp_m c_obs c_exp = (obs_m, exp_m, c_obs, c_exp)"
| "merge_loop ((ob, e) # rest) obs_m exp_m c_obs c_exp =
     (let c_obs' = c_obs + ob; c_exp' = fadd c_exp e
      in if fge c_exp' (Fin 5)
         then merge_loop rest (obs_m @ [c_obs']) (exp_m @ [c_exp']) 0 (Fin 0)
         else merge_loop rest obs_m exp_m c_obs' c_exp')"

definition merge_intervals :: "int list \<Rightarrow> npfloat list \<Rightarrow> int list \<times> npfloat list" where
  "merge_intervals ni_obs ni_exp =
     (case merge_loop (zip ni_obs ni_exp) [] [] 0 (Fin 0) of
        (obs_m, exp_m, c_obs, c_exp) \<Rightarrow>
          if fgt c_exp (Fin 0) \<and> exp_m \<noteq> []
          then (butlast obs_m @ [last obs_m + c_obs],
                butlast exp_m @ [fadd (last exp_m) c_exp])
          else (obs_m, exp_m))"

text \<open>The running expected count after the first \<open>k\<close> pairs, when nothing was emitted.\<close>

definition prefix_exp :: "int list \<Rightarrow> npfloat list \<Rightarrow> nat \<Rightarrow> npfloat" where
  "prefix_exp ni_obs ni_exp k = foldl fadd (Fin 0) (take k (map snd (zip ni_obs ni_exp)))"

fun fsqrt :: "npfloat \<Rightarrow> npfloat" where
  "fsqrt (Fin a) = (if a < 0 then NaN else Fin (sqrt a))"
| "fsqrt PInf = PInf"
| "fsqrt NInf = NaN"
| "fsqrt NaN = NaN"

section \<open>monte\_carlo\_simulation.py: building the layer stack\<close>

text \<open>
  The exceptions the modelled code can raise. The source defines no exception class of
  its own and has no \<open>raise\<close> statement in the two modelled modules: every failure is one
  that Python or numpy raises.
\<close>

datatype exn = IndexError | ZeroDivisionError | ValueError | AttributeError | OverflowError


text \<open>One entry of \<open>layers\<close>; the field \<open>l_x\<close> is the key \<open>'x'\<close> of the layer dictionary.\<close>

record layer =
  l_n :: real
  l_mua :: real
  l_mus :: real
  l_g :: real
  l_z0 :: real
  l_z1 :: real
  l_cos_crit0 :: npfloat

text \<open>The \<open>SimpleNamespace\<close> that \<open>initialize_input\<close> returns.\<close>

record sim_input =
  np :: int
  dz :: real
  dr :: real
  da :: real
  nz :: int
  nr :: int
  na :: int
  nl :: int
  n_above :: real
  n_below :: real
  layers :: "layer list"






section \<open>Arithmetic of numpy floats\<close>

fun fneg :: "npfloat \<Rightarrow> npfloat" where
  "fneg (Fin a) = Fin (- a)"
| "fneg PInf = NInf"
| "fneg NInf = PInf"
| "fneg NaN = NaN"

definition fsub :: "npfloat \<Rightarrow> npfloat \<Rightarrow> npfloat" where
  "fsub a b = fadd a (fneg b)"

fun fmul :: "npfloat \<Rightarrow> npfloat \<Rightarrow> npfloat" where
  "fmul (Fin a) (Fin b) = Fin (a * b)"
| "fmul NaN _ = NaN"
| "fmul _ NaN = NaN"
| "fmul PInf (Fin b) = (if b = 0 then NaN else if b > 0 then PInf else NInf)"
| "fmul NInf (Fin b) = (if b = 0 then NaN else if b > 0 then NInf else PInf)"
| "fmul (Fin a) PInf = (if a = 0 then NaN else if a > 0 then PInf else NInf)"
| "fmul (Fin a) NInf = (if a = 0 then NaN else if a > 0 then NInf else PInf)"
| "fmul PInf PInf = PInf"
| "fmul PInf NInf = NInf"
| "fmul NInf PInf = NInf"
| "fmul NInf NInf = PInf"

text \<open>
  Division of numpy floats: a zero divisor gives \<open>inf\<close> or \<open>nan\<close>, never an exception
  (the zero divisor is taken as \<open>+0.0\<close>).
\<close>

fun fdiv :: "npfloat \<Rightarrow> npfloat \<Rightarrow> npfloat" where
  "fdiv (Fin a) (Fin b) =
     (if b \<noteq> 0 then Fin (a / b) else if a = 0 then NaN else if a > 0 then PInf else NInf)"
| "fdiv NaN _ = NaN"
| "fdiv _ NaN = NaN"
| "fdiv (Fin a) PInf = Fin 0"
| "fdiv (Fin a) NInf = Fin 0"
| "fdiv PInf (Fin b) = (if b \<ge> 0 then PInf else NInf)"
| "fdiv NInf (Fin b) = (if b \<ge> 0 then NInf else PInf)"
| "fdiv PInf PInf = NaN"
| "fdiv PInf NInf = NaN"
| "fdiv NInf PInf = NaN"
| "fdiv NInf NInf = NaN"

definition fle :: "npfloat \<Rightarrow> npfloat \<Rightarrow> bool" where
  "fle a b = fge b a"

fun is_fin :: "npfloat \<Rightarrow> bool" where
  "is_fin (Fin a) = True"
| "is_fin _ = False"

fun fin_val :: "npfloat \<Rightarrow> real" where
  "fin_val (Fin a) = a"
| "fin_val _ = 0"

text \<open>
  Overflow. The exact result \<open>r\<close> of an operation on two finite floats rounds to \<open>inf\<close>
  when its magnitude reaches \<open>2^1024 - 2^970\<close>, half a unit in the last place above the
  largest finite float, and is finite otherwise (then it is modelled by \<open>r\<close> itself).
  \<open>flo\<close> applies this to the result of an operation of \<open>npfloat\<close>.
\<close>

definition overflow_threshold :: real where
  "overflow_threshold = 2 ^ 1024 - 2 ^ 970"

definition fl :: "real \<Rightarrow> npfloat" where
  "fl r = (if r \<ge> overflow_threshold then PInf
           else if r \<le> - overflow_threshold then NInf
           else Fin r)"

fun flo :: "npfloat \<Rightarrow> npfloat" where
  "flo (Fin r) = fl r"
| "flo x = x"

text \<open>\<open>np.sum\<close> of a one-dimensional array (the empty sum is \<open>0.0\<close>).\<close>

definition fsum :: "npfloat list \<Rightarrow> npfloat" where
  "fsum xs = foldr fadd xs (Fin 0)"

section \<open>statistic.py: the analyzer\<close>

text \<open>
  \<open>np.arange(start, stop, step)\<close> on Python floats: \<open>ceil((stop - start) / step)\<close> values
  \<open>start + k * step\<close>; the length is computed by a Python division, which raises for a
  zero step.
\<close>

definition np_arange :: "real \<Rightarrow> real \<Rightarrow> real \<Rightarrow> exn + real list" where
  "np_arange start stop step =
     (if step = 0 then Inl ZeroDivisionError
      else Inr (map (\<lambda>k. start + real k * step) [0..<nat \<lceil>(stop - start) / step\<rceil>]))"

text \<open>
  \<open>np.arange\<close> on floats that may be \<open>inf\<close> or \<open>nan\<close>. numpy computes the length as the
  ceiling of \<open>(stop - start) / step\<close> in float arithmetic and raises \<open>ValueError\<close> when
  this value is \<open>nan\<close> and \<open>OverflowError\<close> when it is infinite; a finite value can only
  come from a finite \<open>start\<close> and \<open>stop\<close>, and a positive one from a finite \<open>step\<close>.
  (A length too large for memory is not modelled.)
\<close>

definition arange_len_value :: "npfloat \<Rightarrow> npfloat \<Rightarrow> npfloat \<Rightarrow> npfloat" where
  "arange_len_value start stop step = flo (fdiv (flo (fsub stop start)) step)"

definition np_arange_f :: "npfloat \<Rightarrow> npfloat \<Rightarrow> npfloat \<Rightarrow> exn + real list" where
  "np_arange_f start stop step =
     (if step = Fin 0 then Inl ZeroDivisionError
      else case arange_len_value start stop step of
             NaN \<Rightarrow> Inl ValueError
           | PInf \<Rightarrow> Inl OverflowError
           | NInf \<Rightarrow> Inl OverflowError
           | Fin v \<Rightarrow> Inr (map (\<lambda>k. fin_val start + real k * fin_val step)
                               [0..<nat \<lceil>v\<rceil>]))"

text \<open>
  \<open>np.histogram(a, bins=edges)\<close> with an array of edges: numpy raises \<open>ValueError\<close> unless
  the edges increase monotonically; bin \<open>i\<close> counts the values in
  \<open>[edges[i], edges[i+1])\<close>, the last bin includes its right edge, and values outside all
  bins are not counted. The edges are returned with the counts.
\<close>

definition in_bin :: "real list \<Rightarrow> nat \<Rightarrow> real \<Rightarrow> bool" where
  "in_bin bins i v =
     (bins ! i \<le> v \<and> (if i + 2 = length bins then v \<le> bins ! (i + 1) else v < bins ! (i + 1)))"

definition np_histogram :: "real list \<Rightarrow> real list \<Rightarrow> exn + int list \<times> real list" where
  "np_histogram a bins =
     (if bins = [] then Inl IndexError
      else if \<not> sorted bins then Inl ValueError
      else Inr (map (\<lambda>i. int (length (filter (in_bin bins i) a))) [0..<length bins - 1],
                bins))"

text \<open>
  The functions of \<open>scipy.stats\<close> that the analyzer calls. They are library code outside
  the repository and are parameters of the model: \<open>t.ppf(q, df)\<close>, \<open>chi2.ppf(q, df)\<close>,
  \<open>chi2.cdf(x, df)\<close>, \<open>norm.cdf(x, loc, scale)\<close> and \<open>expon.cdf(x, scale=s)\<close>. On float
  arguments they return a float (\<open>nan\<close> for an invalid argument) and do not raise.
\<close>

record stats_lib =
  t_ppf :: "real \<Rightarrow> int \<Rightarrow> npfloat"
  chi2_ppf :: "real \<Rightarrow> int \<Rightarrow> npfloat"
  chi2_cdf :: "npfloat \<Rightarrow> int \<Rightarrow> npfloat"
  norm_cdf :: "real \<Rightarrow> npfloat \<Rightarrow> npfloat \<Rightarrow> npfloat"
  expon_cdf :: "real \<Rightarrow> npfloat \<Rightarrow> npfloat"

text \<open>
  A \<open>StatisticalAnalyzer\<close> object; the field \<open>st_x\<close> is the attribute \<open>self.x\<close>. The
  constructor sets the first five attributes; the others exist only once \<open>calculate\<close> has
  set them (\<open>None\<close>: the attribute does not exist).
\<close>

record analyzer =
  st_graphic_values :: "real list"
  st_N :: nat
  st_x_min :: real
  st_x_max :: real
  st_h :: npfloat
  st_ni_values :: "int list option"
  st_edges :: "real list option"
  st_xi_values :: "real list option"
  st_m :: "npfloat option"
  st_d :: "npfloat option"
  st_o :: "npfloat option"
  st_m_ci :: "(npfloat \<times> npfloat) option"
  st_d_ci :: "(npfloat \<times> npfloat) option"
  st_chi2_n :: "npfloat option"
  st_p_n :: "npfloat option"
  st_res_n :: "string option"
  st_chi2_e :: "npfloat option"
  st_p_e :: "npfloat option"
  st_res_e :: "string option"

text \<open>
  \<open>StatisticalAnalyzer.__init__\<close>. \<open>np.min\<close> of an empty array raises \<open>ValueError\<close>; for a
  non-empty one \<open>N \<ge> 1\<close>, so the logarithm is at least 0 and the divisor at least 1. The
  difference \<open>x_max - x_min\<close> of two floats can overflow; \<open>h\<close> is then \<open>inf\<close>.
\<close>

definition analyzer_init :: "real list \<Rightarrow> exn + analyzer" where
  "analyzer_init data =
     (if data = [] then Inl ValueError
      else Inr \<lparr> st_graphic_values = data, st_N = length data,
                 st_x_min = Min (set data), st_x_max = Max (set data),
                 st_h = fdiv (fl (Max (set data) - Min (set data)))
                             (Fin (1 + 3.322 * ln (real (length data)))),
                 st_ni_values = None, st_edges = None, st_xi_values = None,
                 st_m = None, st_d = None, st_o = None, st_m_ci = None, st_d_ci = None,
                 st_chi2_n = None, st_p_n = None, st_res_n = None,
                 st_chi2_e = None, st_p_e = None, st_res_e = None \<rparr>)"

text \<open>
  The Pearson statistic \<open>np.sum((obs - exp)**2 / exp)\<close> over the merged intervals.
\<close>

definition chi2_stat :: "int list \<Rightarrow> npfloat list \<Rightarrow> npfloat" where
  "chi2_stat obs exp_m =
     fsum (map (\<lambda>(ob, e). fdiv (fmul (fsub (Fin (real_of_int ob)) e)
                                       (fsub (Fin (real_of_int ob)) e)) e)
               (zip obs exp_m))"

text \<open>
  \<open>StatisticalAnalyzer._run_pearson_tests\<close>, called when \<open>edges\<close>, \<open>ni_values\<close>, \<open>m\<close> and
  \<open>o\<close> are set. A comparison with \<open>nan\<close> is false, so a \<open>nan\<close> p-value gives
  \<open>"Rejected"\<close>.
\<close>

definition run_pearson_tests ::
  "stats_lib \<Rightarrow> real \<Rightarrow> real list \<Rightarrow> int list \<Rightarrow> npfloat \<Rightarrow> npfloat \<Rightarrow> analyzer \<Rightarrow> analyzer" where
  "run_pearson_tests lib alpha edges ni_values m ob st =
     (let p_i = map2 (\<lambda>hi lo. fsub (norm_cdf lib hi m ob) (norm_cdf lib lo m ob))
                  (tl edges) (butlast edges);
          (obs, exp_n) = merge_intervals ni_values
                           (map (\<lambda>p. fmul (Fin (real (st_N st))) p) p_i);
          df_n = max 1 (int (length exp_n) - 3);
          chi2_n = (if length exp_n \<ge> 3 then chi2_stat obs exp_n else NaN);
          p_n = fsub (Fin 1) (chi2_cdf lib chi2_n df_n);
          res_n = (if fge p_n (Fin alpha) then ''Accepted'' else ''Rejected'');
          lambd = fdiv (Fin 1) m;
          p_i_e = map2 (\<lambda>hi lo. fsub (expon_cdf lib hi (fdiv (Fin 1) lambd))
                                      (expon_cdf lib lo (fdiv (Fin 1) lambd)))
                    (tl edges) (butlast edges);
          (obs_e, exp_e) = merge_intervals ni_values
                             (map (\<lambda>p. fmul (Fin (real (st_N st))) p) p_i_e);
          df_e = max 1 (int (length exp_e) - 2);
          chi2_e = (if length exp_e \<ge> 2 then chi2_stat obs_e exp_e else NaN);
          p_e = fsub (Fin 1) (chi2_cdf lib chi2_e df_e);
          res_e = (if fge p_e (Fin alpha) then ''Accepted'' else ''Rejected'')
      in st \<lparr> st_chi2_n := Some chi2_n, st_p_n := Some p_n, st_res_n := Some res_n,
              st_chi2_e := Some chi2_e, st_p_e := Some p_e, st_res_e := Some res_e \<rparr>)"

text \<open>
  The two bounds of the bins, \<open>x_start = self.x_min - self.h / 2\<close> and
  \<open>self.x_max + self.h * 1.5\<close>, in float arithmetic.
\<close>

definition arange_start :: "analyzer \<Rightarrow> npfloat" where
  "arange_start st = flo (fsub (Fin (st_x_min st)) (flo (fdiv (st_h st) (Fin 2))))"

definition arange_stop :: "analyzer \<Rightarrow> npfloat" where
  "arange_stop st = flo (fadd (Fin (st_x_max st)) (flo (fmul (st_h st) (Fin 1.5))))"

text \<open>
  \<open>StatisticalAnalyzer.calculate\<close>. The guard \<open>if self.h <= 0: return\<close> leaves the object
  as it is; \<open>calculate\<close> has no return value on either path, so the model returns the
  object, or the exception a library call raises.
\<close>

definition calculate :: "stats_lib \<Rightarrow> analyzer \<Rightarrow> exn + analyzer" where
  "calculate lib st =
     (if fle (st_h st) (Fin 0) then Inr st
      else
        let x_start = arange_start st in
        case np_arange_f x_start (arange_stop st) (st_h st) of
          Inl e \<Rightarrow> Inl e
        | Inr bins \<Rightarrow>
        (case np_histogram (st_graphic_values st) bins of
          Inl e \<Rightarrow> Inl e
        | Inr (ni_values, edges) \<Rightarrow>
          let xi_values = map2 (\<lambda>lo hi. (lo + hi) / 2) (butlast edges) (tl edges);
              m = fdiv (Fin (sum_list (map2 (\<lambda>x n. x * real_of_int n) xi_values ni_values)))
                       (Fin (real (st_N st)));
              d = fdiv (fsum (map2 (\<lambda>x n. fmul (fmul (fsub (Fin x) m) (fsub (Fin x) m))
                                                 (Fin (real_of_int n)))
                                xi_values ni_values))
                       (Fin (real_of_int (int (st_N st) - 1)));
              ob = fsqrt d;
              alpha = 0.05;
              t_crit = t_ppf lib (1 - alpha / 2) (int (st_N st) - 1);
              margin = fmul t_crit (fdiv ob (Fin (sqrt (real (st_N st)))));
              m_ci = (fsub m margin, fadd m margin);
              chi2_low = chi2_ppf lib (alpha / 2) (int (st_N st) - 1);
              chi2_high = chi2_ppf lib (1 - alpha / 2) (int (st_N st) - 1);
              d_ci = (fdiv (fmul (Fin (real_of_int (int (st_N st) - 1))) d) chi2_high,
                      fdiv (fmul (Fin (real_of_int (int (st_N st) - 1))) d) chi2_low)
          in Inr (run_pearson_tests lib alpha edges ni_values m ob
                    (st \<lparr> st_ni_values := Some ni_values, st_edges := Some edges,
                          st_xi_values := Some xi_values, st_m := Some m, st_d := Some d,
                          st_o := Some ob, st_m_ci := Some m_ci, st_d_ci := Some d_ci \<rparr>))))"

text \<open>
  A stand-in for \<open>scipy.stats\<close> in which every function returns \<open>nan\<close>, for evaluating
  the analyzer on concrete data.
\<close>

definition nan_stats :: stats_lib where
  "nan_stats = \<lparr> t_ppf = (\<lambda>q df. NaN), chi2_ppf = (\<lambda>q df. NaN), chi2_cdf = (\<lambda>x df. NaN),
                 norm_cdf = (\<lambda>x loc scale. NaN), expon_cdf = (\<lambda>x scale. NaN) \<rparr>"

text \<open>
  Names for three values that \<open>calculate\<close> computes from the edges and counts of the
  histogram of \<open>n\<close> observations: the interval midpoints \<open>xi_values\<close>, the mean \<open>m\<close> and
  the variance \<open>d\<close>.
\<close>

definition midpoints :: "real list \<Rightarrow> real list" where
  "midpoints edges = map2 (\<lambda>lo hi. (lo + hi) / 2) (butlast edges) (tl edges)"

definition hist_mean :: "real list \<Rightarrow> int list \<Rightarrow> nat \<Rightarrow> npfloat" where
  "hist_mean edges ni n =
     fdiv (Fin (sum_list (map2 (\<lambda>x k. x * real_of_int k) (midpoints edges) ni)))
          (Fin (real n))"

definition hist_variance :: "real list \<Rightarrow> int list \<Rightarrow> nat \<Rightarrow> npfloat" where
  "hist_variance edges ni n =
     fdiv (fsum (map2 (\<lambda>x k. fmul (fmul (fsub (Fin x) (hist_mean edges ni n))
                                         (fsub (Fin x) (hist_mean edges ni n)))
                                   (Fin (real_of_int k)))
                      (midpoints edges) ni))
          (Fin (real_of_int (int n - 1)))"

text \<open>
  The goodness-of-fit test as the specification words it, for one candidate distribution
  given by its cumulative distribution function \<open>cdf\<close> and its number \<open>nparams\<close> of fitted
  parameters: the expected count of a bin is \<open>N\<close> times the difference of \<open>cdf\<close> at its
  two edges; adjacent bins are merged; the statistic is the sum of
  \<open>(observed - expected)^2 / expected\<close> over the merged bins, and \<open>nan\<close> when fewer than
  \<open>nparams + 1\<close> merged bins remain; the degrees of freedom are the number of merged bins
  minus 1 minus \<open>nparams\<close>, floored at 1; the p-value is the right tail \<open>1 - chi2.cdf\<close>;
  the decision is \<open>"Accepted"\<close> when the p-value is at least \<open>alpha\<close> and \<open>"Rejected"\<close>
  otherwise. It is the specification's side of the comparison with \<open>run_pearson_tests\<close>.
\<close>

definition spec_pearson_test ::
  "stats_lib \<Rightarrow> (real \<Rightarrow> npfloat) \<Rightarrow> nat \<Rightarrow> real \<Rightarrow> nat \<Rightarrow> int list \<Rightarrow> real list
     \<Rightarrow> npfloat \<times> npfloat \<times> string" where
  "spec_pearson_test lib cdf nparams alpha n ni edges =
     (let expected = map (\<lambda>i. fmul (Fin (real n))
                                   (fsub (cdf (edges ! (i + 1))) (cdf (edges ! i))))
                         [0..<length edges - 1];
          merged = merge_intervals ni expected;
          k = length (snd merged);
          chi2 = (if nparams + 1 \<le> k then chi2_stat (fst merged) (snd merged) else NaN);
          df = max 1 (int k - 1 - int nparams);
          p = fsub (Fin 1) (chi2_cdf lib chi2 df)
      in (chi2, p, if fge p (Fin alpha) then ''Accepted'' else ''Rejected''))"

section \<open>monte\_carlo\_simulation.py: normalisation of the raw counts\<close>

text \<open>
  A two-dimensional \<open>float64\<close> array of shape \<open>(length rows, ncols)\<close>, stored by rows; every
  row of a well-formed array has \<open>ncols\<close> entries. The one-dimensional arrays of the
  program are lists.
\<close>

datatype array2 = Array2 (ncols: nat) (rows: "npfloat list list")

definition nrows :: "array2 \<Rightarrow> nat" where
  "nrows a = length (rows a)"

definition wf_array2 :: "array2 \<Rightarrow> bool" where
  "wf_array2 a = list_all (\<lambda>r. length r = ncols a) (rows a)"

text \<open>
  The two-dimensional arrays are objects that the caller of \<open>process_output\<close> shares with
  it, and the in-place operators \<open>/=\<close> and \<open>*=\<close> write into them: they live in a store, a
  list of arrays in which a reference is an index. Updating the store at a reference is
  the in-place write.
\<close>

type_synonym ref = nat

type_synonym heap = "array2 list"

text \<open>
  The \<open>SimpleNamespace\<close> called \<open>output\<close>, with its attributes under their own names. The
  three raw arrays are references into the store. The profiles are arrays that
  \<open>np.sum\<close> creates and that only this object refers to, and the totals are numbers:
  both are held by value, and are \<open>None\<close> until \<open>process_output\<close> has set them.
\<close>

record output_ns =
  rd_ra :: ref
  ab_rz :: ref
  tt_ra :: ref
  rd_r :: "npfloat list option"
  rd_a :: "npfloat list option"
  ab_r :: "npfloat list option"
  ab_z :: "npfloat list option"
  tt_r :: "npfloat list option"
  tt_a :: "npfloat list option"
  rd :: "npfloat option"
  ab :: "npfloat option"
  tt :: "npfloat option"

text \<open>\<open>a /= c\<close> for an array \<open>a\<close> and a Python int \<open>c\<close>: numpy division, element by element.\<close>

definition idiv_scalar :: "array2 \<Rightarrow> int \<Rightarrow> array2" where
  "idiv_scalar a c = Array2 (ncols a) (map (map (\<lambda>x. fdiv x (Fin (real_of_int c)))) (rows a))"

text \<open>\<open>np.sum(a, axis=1)\<close>, \<open>np.sum(a, axis=0)\<close> and \<open>np.sum(a)\<close>.\<close>

definition sum_axis1 :: "array2 \<Rightarrow> npfloat list" where
  "sum_axis1 a = map fsum (rows a)"

definition sum_axis0 :: "array2 \<Rightarrow> npfloat list" where
  "sum_axis0 a = map (\<lambda>j. fsum (map (\<lambda>r. r ! j) (rows a))) [0..<ncols a]"

definition sum_all :: "array2 \<Rightarrow> npfloat" where
  "sum_all a = fsum (concat (rows a))"

text \<open>
  \<open>a *= s\<close> for a two-dimensional array \<open>a\<close> and an array \<open>s\<close> of shape \<open>(p, q)\<close>, given by
  its entries \<open>s i j\<close> (counted from 0). numpy broadcasts \<open>s\<close> to the shape of \<open>a\<close>: each
  dimension of \<open>s\<close> must equal that of \<open>a\<close> or be 1, otherwise \<open>ValueError\<close> is raised and
  \<open>a\<close> is not written. \<open>imul1\<close> is the same for a one-dimensional array.
\<close>

definition imul2 :: "array2 \<Rightarrow> nat \<Rightarrow> nat \<Rightarrow> (nat \<Rightarrow> nat \<Rightarrow> npfloat) \<Rightarrow> exn + array2" where
  "imul2 a p q s =
     (if (p = nrows a \<or> p = 1) \<and> (q = ncols a \<or> q = 1)
      then Inr (Array2 (ncols a)
                  (map (\<lambda>i. map (\<lambda>j. fmul (rows a ! i ! j)
                                          (s (if p = 1 then 0 else i) (if q = 1 then 0 else j)))
                                [0..<ncols a])
                       [0..<nrows a]))
      else Inl ValueError)"

definition imul1 :: "npfloat list \<Rightarrow> nat \<Rightarrow> (nat \<Rightarrow> npfloat) \<Rightarrow> exn + npfloat list" where
  "imul1 xs p s =
     (if p = length xs \<or> p = 1
      then Inr (map (\<lambda>i. fmul (xs ! i) (s (if p = 1 then 0 else i))) [0..<length xs])
      else Inl ValueError)"

text \<open>
  The scale factors of the geometric rescaling, as the source computes them; index \<open>i\<close>
  (from 0) stands for the entry \<open>i + 1\<close> of \<open>np.arange(1, nr + 1)\<close>. The denominators are
  products of Python floats and arrays; \<open>1.0 / array\<close> is numpy division.
\<close>

definition scale1 :: "sim_input \<Rightarrow> real" where
  "scale1 input_data =
     4.0 * pi\<^sup>2 * dr input_data * sin (da input_data / 2) * dr input_data"

definition scale2_den :: "sim_input \<Rightarrow> nat \<Rightarrow> nat \<Rightarrow> real" where
  "scale2_den input_data i j =
     (real (i + 1) - 0.5) * sin (2.0 * (real (j + 1) - 0.5) * da input_data)
       * scale1 input_data"

definition scale2_ra :: "sim_input \<Rightarrow> nat \<Rightarrow> nat \<Rightarrow> npfloat" where
  "scale2_ra input_data i j = fdiv (Fin 1.0) (Fin (scale2_den input_data i j))"

definition scale1_r :: "sim_input \<Rightarrow> real" where
  "scale1_r input_data = 2.0 * pi * (dr input_data)\<^sup>2"

definition scale_r :: "sim_input \<Rightarrow> nat \<Rightarrow> npfloat" where
  "scale_r input_data i =
     fdiv (Fin 1.0) (Fin ((real (i + 1) - 0.5) * scale1_r input_data))"

definition scale1_a :: "sim_input \<Rightarrow> real" where
  "scale1_a input_data = 4.0 * pi * sin (da input_data / 2)"

definition scale_a :: "sim_input \<Rightarrow> nat \<Rightarrow> npfloat" where
  "scale_a input_data j =
     fdiv (Fin 1.0) (Fin (sin (real (j + 1) * da input_data) * scale1_a input_data))"

definition scale_ab :: "sim_input \<Rightarrow> nat \<Rightarrow> nat \<Rightarrow> npfloat" where
  "scale_ab input_data i j =
     fdiv (Fin 1.0) (Fin (real (i + 1) * scale1_a input_data * dz input_data))"

text \<open>
  The geometric rescaling, lines 90 to 119 of the source, on the object \<open>output\<close> whose
  profiles are \<open>rd_r0\<close>, ..., \<open>tt_a0\<close> and whose totals are already set. Each statement is
  one step; a step that raises ends the call with the store as written so far. The last
  factor \<open>1.0 / dz\<close> is a division of Python floats and raises \<open>ZeroDivisionError\<close> for
  \<open>dz = 0\<close>, after every other array has been rescaled.
\<close>

definition rescale ::
  "sim_input \<Rightarrow> output_ns \<Rightarrow> npfloat list \<Rightarrow> npfloat list \<Rightarrow> npfloat list \<Rightarrow> npfloat list
     \<Rightarrow> npfloat list \<Rightarrow> npfloat list \<Rightarrow> heap \<Rightarrow> (exn + output_ns) \<times> heap" where
  "rescale input_data output rd_r0 rd_a0 ab_r0 ab_z0 tt_r0 tt_a0 h =
     (let p = nat (nr input_data); q = nat (na input_data) in
      case imul2 (h ! rd_ra output) p q (scale2_ra input_data) of
        Inl e \<Rightarrow> (Inl e, h)
      | Inr a1 \<Rightarrow>
      let h1 = h[rd_ra output := a1] in
      case imul2 (h1 ! tt_ra output) p q (scale2_ra input_data) of
        Inl e \<Rightarrow> (Inl e, h1)
      | Inr a2 \<Rightarrow>
      let h2 = h1[tt_ra output := a2] in
      case imul1 rd_r0 p (scale_r input_data) of
        Inl e \<Rightarrow> (Inl e, h2)
      | Inr rd_r1 \<Rightarrow>
      case imul1 tt_r0 p (scale_r input_data) of
        Inl e \<Rightarrow> (Inl e, h2)
      | Inr tt_r1 \<Rightarrow>
      case imul1 rd_a0 q (scale_a input_data) of
        Inl e \<Rightarrow> (Inl e, h2)
      | Inr rd_a1 \<Rightarrow>
      case imul1 tt_a0 q (scale_a input_data) of
        Inl e \<Rightarrow> (Inl e, h2)
      | Inr tt_a1 \<Rightarrow>
      case imul2 (h2 ! ab_rz output) p 1 (scale_ab input_data) of
        Inl e \<Rightarrow> (Inl e, h2)
      | Inr a3 \<Rightarrow>
      let h3 = h2[ab_rz output := a3] in
      if dz input_data = 0 then (Inl ZeroDivisionError, h3)
      else
        let ab_z1 = map (\<lambda>x. fmul x (Fin (1.0 / dz input_data))) ab_z0 in
        (Inr (output \<lparr> rd_r := Some rd_r1, rd_a := Some rd_a1, ab_r := Some ab_r0,
                        ab_z := Some ab_z1, tt_r := Some tt_r1, tt_a := Some tt_a1 \<rparr>),
         h3))"

text \<open>
  \<open>SimulationMonteCarlo.process_output\<close>: the three divisions by the photon count, in
  place; the profiles and totals, summed from the divided arrays; then the rescaling. The
  object returned is \<open>output\<close> itself, so its three references are the caller's.
\<close>

definition process_output :: "sim_input \<Rightarrow> output_ns \<Rightarrow> heap \<Rightarrow> (exn + output_ns) \<times> heap" where
  "process_output input_data output h0 =
     (let h1 = h0[rd_ra output := idiv_scalar (h0 ! rd_ra output) (np input_data)];
          h2 = h1[ab_rz output := idiv_scalar (h1 ! ab_rz output) (np input_data)];
          h3 = h2[tt_ra output := idiv_scalar (h2 ! tt_ra output) (np input_data)];
          rd_r0 = sum_axis1 (h3 ! rd_ra output);
          rd_a0 = sum_axis0 (h3 ! rd_ra output);
          ab_r0 = sum_axis1 (h3 ! ab_rz output);
          ab_z0 = sum_axis0 (h3 ! ab_rz output);
          tt_r0 = sum_axis1 (h3 ! tt_ra output);
          tt_a0 = sum_axis0 (h3 ! tt_ra output);
          output1 = output \<lparr> rd := Some (sum_all (h3 ! rd_ra output)),
                             ab := Some (sum_all (h3 ! ab_rz output)),
                             tt := Some (sum_all (h3 ! tt_ra output)) \<rparr>
      in rescale input_data output1 rd_r0 rd_a0 ab_r0 ab_z0 tt_r0 tt_a0 h3)"

text \<open>
  What the theorems below ask of a call: the three references are distinct arrays of the
  store, and the arrays are well formed with the shapes \<open>(nr, na)\<close>, \<open>(nr, nz)\<close> and
  \<open>(nr, na)\<close> that \<open>mc\<close> creates them with.
\<close>

definition shapes_ok :: "sim_input \<Rightarrow> output_ns \<Rightarrow> heap \<Rightarrow> bool" where
  "shapes_ok input_data output h =
     (rd_ra output < length h \<and> ab_rz output < length h \<and> tt_ra output < length h
      \<and> rd_ra output \<noteq> ab_rz output \<and> rd_ra output \<noteq> tt_ra output
      \<and> ab_rz output \<noteq> tt_ra output
      \<and> wf_array2 (h ! rd_ra output) \<and> wf_array2 (h ! ab_rz output)
      \<and> wf_array2 (h ! tt_ra output)
      \<and> nrows (h ! rd_ra output) = nat (nr input_data)
      \<and> ncols (h ! rd_ra output) = nat (na input_data)
      \<and> nrows (h ! ab_rz output) = nat (nr input_data)
      \<and> ncols (h ! ab_rz output) = nat (nz input_data)
      \<and> nrows (h ! tt_ra output) = nat (nr input_data)
      \<and> ncols (h ! tt_ra output) = nat (na input_data))"

text \<open>
  What the store holds at the reference of a reflectance or transmittance array, and of
  the absorption array, once \<open>process_output\<close> has run on an array \<open>a\<close>: every entry
  divided by the photon count and multiplied by its scale factor.
\<close>

definition scaled2 :: "sim_input \<Rightarrow> array2 \<Rightarrow> array2" where
  "scaled2 input_data a =
     Array2 (ncols a)
       (map (\<lambda>i. map (\<lambda>j. fmul (fdiv (rows a ! i ! j) (Fin (real_of_int (np input_data))))
                               (scale2_ra input_data i j))
                    [0..<ncols a])
            [0..<nrows a])"

definition scaled_ab :: "sim_input \<Rightarrow> array2 \<Rightarrow> array2" where
  "scaled_ab input_data a =
     Array2 (ncols a)
       (map (\<lambda>i. map (\<lambda>j. fmul (fdiv (rows a ! i ! j) (Fin (real_of_int (np input_data))))
                               (scale_ab input_data i 0))
                    [0..<ncols a])
            [0..<nrows a])"

text \<open>
  Concrete calls: a namespace as \<open>mc\<close> hands it over, with only the three raw arrays set;
  a grid of one bin in each direction with \<open>dr = 0\<close>, the same grid with \<open>dr = 1\<close>, and a
  store of three one-by-one arrays; the grid of config.py with the store in which the
  reflectance array holds the photon count in its first bin and zeros elsewhere.
\<close>

definition raw_output :: "ref \<Rightarrow> ref \<Rightarrow> ref \<Rightarrow> output_ns" where
  "raw_output a b c = \<lparr> rd_ra = a, ab_rz = b, tt_ra = c, rd_r = None, rd_a = None,
                        ab_r = None, ab_z = None, tt_r = None, tt_a = None,
                        rd = None, ab = None, tt = None \<rparr>"




definition grid_c1 :: sim_input where
  "grid_c1 = \<lparr> np = 50000, dz = 1 / 5, dr = 1 / 5, da = 0.5 * pi / 30, nz = 10, nr = 20,
               na = 30, nl = 4, n_above = 1, n_below = 1, layers = [] \<rparr>"

definition heap_c1 :: heap where
  "heap_c1 = [Array2 30 ((Fin 50000 # replicate 29 (Fin 0)) # replicate 19 (replicate 30 (Fin 0))),
              Array2 10 (replicate 20 (replicate 10 (Fin 0))),
              Array2 30 (replicate 20 (replicate 30 (Fin 0)))]"

section \<open>monte\_carlo\_simulation.py: sampling the radial profile\<close>

text \<open>
  \<open>scipy.interpolate.PchipInterpolator\<close> is library code outside the repository; the
  definitions below follow the library's algorithm on real numbers. The constructor
  rejects, with \<open>ValueError\<close>, fewer than two points, lengths that differ, a value that is
  not finite and abscissae that do not increase strictly. The derivative at an interior
  point is 0 where the two adjacent slopes differ in sign or one is 0, and their weighted
  harmonic mean otherwise; the derivative at an end point is the three-point estimate,
  corrected to preserve the shape; two points give the straight line.
\<close>

definition edge_case :: "real \<Rightarrow> real \<Rightarrow> real \<Rightarrow> real \<Rightarrow> real" where
  "edge_case h0 h1 m0 m1 =
     (let d = ((2 * h0 + h1) * m0 - h0 * m1) / (h0 + h1);
          mask = (sgn d \<noteq> sgn m0);
          mask2 = (sgn m0 \<noteq> sgn m1 \<and> \<bar>d\<bar> > 3 * \<bar>m0\<bar>)
      in if mask then 0 else if mask2 then 3 * m0 else d)"

definition interior_derivative :: "real list \<Rightarrow> real list \<Rightarrow> nat \<Rightarrow> real" where
  "interior_derivative hk mk k =
     (let w1 = 2 * hk ! k + hk ! (k - 1);
          w2 = hk ! k + 2 * hk ! (k - 1);
          whmean = (w1 / mk ! (k - 1) + w2 / mk ! k) / (w1 + w2)
      in if sgn (mk ! k) \<noteq> sgn (mk ! (k - 1)) \<or> mk ! k = 0 \<or> mk ! (k - 1) = 0
         then 0 else 1 / whmean)"

definition find_derivatives :: "real list \<Rightarrow> real list \<Rightarrow> real list" where
  "find_derivatives x y =
     (let n = length x;
          hk = map (\<lambda>k. x ! (k + 1) - x ! k) [0..<n - 1];
          mk = map (\<lambda>k. (y ! (k + 1) - y ! k) / hk ! k) [0..<n - 1]
      in if n = 2 then [mk ! 0, mk ! 0]
         else edge_case (hk ! 0) (hk ! 1) (mk ! 0) (mk ! 1)
              # map (interior_derivative hk mk) [1..<n - 1]
              @ [edge_case (hk ! (n - 2)) (hk ! (n - 3)) (mk ! (n - 2)) (mk ! (n - 3))])"

text \<open>
  The cubic on the interval from \<open>x[k]\<close> to \<open>x[k+1]\<close>, as the coefficients of the powers
  3, 2, 1 and 0 of \<open>x - x[k]\<close> (the library's \<open>CubicHermiteSpline\<close>).
\<close>

definition hermite_coeffs ::
  "real list \<Rightarrow> real list \<Rightarrow> real list \<Rightarrow> nat \<Rightarrow> real \<times> real \<times> real \<times> real" where
  "hermite_coeffs x y dydx k =
     (let dx = x ! (k + 1) - x ! k;
          slope = (y ! (k + 1) - y ! k) / dx;
          t = (dydx ! k + dydx ! (k + 1) - 2 * slope) / dx
      in (t / dx, (slope - dydx ! k) / dx - t, dydx ! k, y ! k))"

record pchip =
  breaks :: "real list"
  coeffs :: "(real \<times> real \<times> real \<times> real) list"

definition PchipInterpolator :: "real list \<Rightarrow> npfloat list \<Rightarrow> exn + pchip" where
  "PchipInterpolator x y =
     (if length x < 2 then Inl ValueError
      else if length x \<noteq> length y then Inl ValueError
      else if \<not> list_all is_fin y then Inl ValueError
      else if \<not> sorted_wrt (<) x then Inl ValueError
      else Inr \<lparr> breaks = x,
                 coeffs = map (hermite_coeffs x (map fin_val y)
                                 (find_derivatives x (map fin_val y)))
                              [0..<length x - 1] \<rparr>)"

text \<open>
  Calling the interpolator built with \<open>extrapolate=False\<close>: a query outside the first and
  last break gives \<open>nan\<close>; a query at the last break belongs to the last interval; any
  other query belongs to the interval that starts at the last break not above it.
\<close>

definition find_interval :: "real list \<Rightarrow> real \<Rightarrow> nat" where
  "find_interval x xval =
     (if xval = last x then length x - 2
      else length (takeWhile (\<lambda>b. b \<le> xval) x) - 1)"

definition pchip_call :: "pchip \<Rightarrow> real \<Rightarrow> npfloat" where
  "pchip_call ip xval =
     (if \<not> (hd (breaks ip) \<le> xval \<and> xval \<le> last (breaks ip)) then NaN
      else
        let i = find_interval (breaks ip) xval;
            s = xval - breaks ip ! i
        in case coeffs ip ! i of
             (c0, c1, c2, c3) \<Rightarrow> Fin (c0 * s ^ 3 + c1 * s ^ 2 + c2 * s + c3))"

text \<open>
  \<open>np.nan_to_num(v, nan=c)\<close>: \<open>nan\<close> becomes \<open>c\<close>, and the infinities become the largest
  and the smallest finite \<open>float64\<close>.
\<close>

definition float_max :: real where
  "float_max = (2 - 1 / 2 ^ 52) * 2 ^ 1023"

fun nan_to_num :: "npfloat \<Rightarrow> real \<Rightarrow> real" where
  "nan_to_num (Fin a) c = a"
| "nan_to_num NaN c = c"
| "nan_to_num PInf c = float_max"
| "nan_to_num NInf c = - float_max"

text \<open>
  What \<open>get_analysis_data\<close> returns, the table \<open>df_p_only\<close> as its rows (index
  \<open>i_value\<close>, column \<open>P_reflectance\<close>), together with the column it writes to the file
  \<open>P_reflectance.txt\<close> (the formatting of the numbers is not modelled).
\<close>

record analysis_data =
  df_p_only :: "(real \<times> real) list"
  r_axis :: "real list"
  rd_values :: "npfloat list"
  file_P_reflectance :: "real list"

text \<open>
  \<open>SimulationMonteCarlo.get_analysis_data\<close>, on the attributes \<open>self.input\<close> and
  \<open>self.output\<close> (\<open>None\<close> until \<open>run_simulation\<close> has run; reading \<open>rd_r\<close> from \<open>None\<close>, or
  from an object without it, raises \<open>AttributeError\<close>).
\<close>

definition get_analysis_data ::
  "sim_input \<Rightarrow> output_ns option \<Rightarrow> real \<Rightarrow> real \<Rightarrow> real \<Rightarrow> exn + analysis_data" where
  "get_analysis_data self_input self_output start_dist end_dist step =
     (let rindex = map (\<lambda>i. real (i + 1) * dr self_input - dr self_input / 2)
                       [0..<nat (nr self_input)]
      in case np_arange start_dist (end_dist + step) step of
           Inl e \<Rightarrow> Inl e
         | Inr i_distances \<Rightarrow>
           (case Option.bind self_output rd_r of
              None \<Rightarrow> Inl AttributeError
            | Some profile \<Rightarrow>
              (case PchipInterpolator rindex profile of
                 Inl e \<Rightarrow> Inl e
               | Inr interp_func \<Rightarrow>
                 let p_reflectance = map (\<lambda>q. nan_to_num (pchip_call interp_func q) 0.0)
                                         i_distances
                 in Inr \<lparr> df_p_only = zip i_distances p_reflectance,
                            r_axis = rindex, rd_values = profile,
                            file_P_reflectance = sort p_reflectance \<rparr>)))"

text \<open>
  Concrete calls: a grid of two radial bins of width 1, whose bin midpoints are 0.5 and
  1.5, with the radial profile \<open>[1, 3]\<close>.
\<close>

definition grid_two :: sim_input where
  "grid_two = \<lparr> np = 1, dz = 1, dr = 1, da = 0.5 * pi / 1, nz = 1, nr = 2, na = 1, nl = 0,
                n_above = 1, n_below = 1, layers = [] \<rparr>"

definition output_two :: output_ns where
  "output_two = \<lparr> rd_ra = 0, ab_rz = 1, tt_ra = 2, rd_r = Some [Fin 1, Fin 3],
                  rd_a = None, ab_r = None, ab_z = None, tt_r = None, tt_a = None,
                  rd = None, ab = None, tt = None \<rparr>"

section \<open>Properties of the interval merge\<close>

lemma merge_loop_exp_ge5:
  assumes "\<forall>e \<in> set exp_m. fge e (Fin 5)"
    and "merge_loop zs obs_m exp_m c_obs c_exp = (obs', exp', co, ce)"
  shows "\<forall>e \<in> set exp'. fge e (Fin 5)"
  using assms
proof (induction zs arbitrary: obs_m exp_m c_obs c_exp)
  case Nil
  then show ?case by simp
next
  case (Cons z zs)
  obtain ob e where z: "z = (ob, e)" by (cases z)
  show ?case
  proof (cases "fge (fadd c_exp e) (Fin 5)")
    case True
    with Cons.prems z
    have run: "merge_loop zs (obs_m @ [c_obs + ob]) (exp_m @ [fadd c_exp e]) 0 (Fin 0)
                 = (obs', exp', co, ce)"
      by (simp add: Let_def)
    have "\<forall>x \<in> set (exp_m @ [fadd c_exp e]). fge x (Fin 5)"
      using Cons.prems(1) True by simp
    from Cons.IH [OF this run] show ?thesis .
  next
    case False
    with Cons.prems z
    have run: "merge_loop zs obs_m exp_m (c_obs + ob) (fadd c_exp e) = (obs', exp', co, ce)"
      by (simp add: Let_def)
    from Cons.IH [OF Cons.prems(1) run] show ?thesis .
  qed
qed

lemma fold_remainder_ge5:
  assumes "fge x (Fin 5)" and "fgt c (Fin 0)"
  shows "fge (fadd x c) (Fin 5)"
  using assms by (cases x; cases c) auto

text \<open>
  Claim C7. Whatever the observed and expected counts are, every merged interval that
  \<open>_merge_intervals\<close> returns has an expected count of at least 5: an interval is emitted
  only when the running sum has reached 5, and the trailing remainder is folded into the
  last one only when it is positive.
\<close>

theorem merge_intervals_expected_ge5:
  "\<forall>e \<in> set (snd (merge_intervals ni_obs ni_exp)). fge e (Fin 5)"
proof -
  obtain obs_m exp_m c_obs c_exp
    where run: "merge_loop (zip ni_obs ni_exp) [] [] 0 (Fin 0) = (obs_m, exp_m, c_obs, c_exp)"
    by (cases "merge_loop (zip ni_obs ni_exp) [] [] 0 (Fin 0)") auto
  have inv: "\<forall>e \<in> set exp_m. fge e (Fin 5)"
    using merge_loop_exp_ge5 [OF _ run] by simp
  show ?thesis
  proof (cases "fgt c_exp (Fin 0) \<and> exp_m \<noteq> []")
    case True
    then have ne: "exp_m \<noteq> []" and pos: "fgt c_exp (Fin 0)" by simp_all
    have "fge (last exp_m) (Fin 5)" using inv ne by simp
    then have l: "fge (fadd (last exp_m) c_exp) (Fin 5)"
      using pos by (rule fold_remainder_ge5)
    have "\<forall>e \<in> set (butlast exp_m). fge e (Fin 5)"
      using inv by (meson in_set_butlastD)
    with l True run show ?thesis by (simp add: merge_intervals_def)
  next
    case False
    with inv run show ?thesis by (auto simp: merge_intervals_def)
  qed
qed

theorem merge_intervals_expected_ge5_witness:
  "merge_intervals [3, 4, 1, 2] [Fin 2, Fin 4, Fin 6, Fin 1] = ([7, 3], [Fin 6, Fin 7])
   \<and> fge (Fin 6) (Fin 5) \<and> fge (Fin 7) (Fin 5)"
  using merge_intervals_expected_ge5 [of "[3, 4, 1, 2]" "[Fin 2, Fin 4, Fin 6, Fin 1]"]
  by (simp add: merge_intervals_def Let_def)

lemma merge_loop_nothing_emitted:
  assumes "\<forall>k \<le> length zs. \<not> fge (foldl fadd c_exp (take k (map snd zs))) (Fin 5)"
  shows "\<exists>co ce. merge_loop zs obs_m exp_m c_obs c_exp = (obs_m, exp_m, co, ce)"
  using assms
proof (induction zs arbitrary: c_obs c_exp)
  case Nil
  then show ?case by simp
next
  case (Cons z zs)
  obtain ob e where z: "z = (ob, e)" by (cases z)
  have first: "\<not> fge (fadd c_exp e) (Fin 5)"
    using Cons.prems [rule_format, of 1] z by simp
  have rest: "\<forall>k \<le> length zs. \<not> fge (foldl fadd (fadd c_exp e) (take k (map snd zs))) (Fin 5)"
  proof (intro allI impI)
    fix k assume "k \<le> length zs"
    then have "Suc k \<le> length (z # zs)" by simp
    from Cons.prems [rule_format, OF this] z
    show "\<not> fge (foldl fadd (fadd c_exp e) (take k (map snd zs))) (Fin 5)" by simp
  qed
  from Cons.IH [OF rest, of "c_obs + ob"] first z show ?case
    by (simp add: Let_def)
qed

text \<open>
  Claim C10. When no prefix of the paired counts accumulates an expected count of at
  least 5, no interval is ever emitted, the trailing fold finds no interval to fold into,
  and \<open>_merge_intervals\<close> returns two empty sequences: the counts are dropped.
\<close>

theorem merge_intervals_all_discarded:
  assumes "\<forall>k \<le> length (zip ni_obs ni_exp). \<not> fge (prefix_exp ni_obs ni_exp k) (Fin 5)"
  shows "merge_intervals ni_obs ni_exp = ([], [])"
proof -
  have "\<forall>k \<le> length (zip ni_obs ni_exp).
          \<not> fge (foldl fadd (Fin 0) (take k (map snd (zip ni_obs ni_exp)))) (Fin 5)"
    using assms by (simp add: prefix_exp_def)
  from merge_loop_nothing_emitted [OF this, of "[]" "[]" 0]
  obtain co ce where "merge_loop (zip ni_obs ni_exp) [] [] 0 (Fin 0) = ([], [], co, ce)"
    by blast
  then show ?thesis by (simp add: merge_intervals_def)
qed

theorem merge_intervals_all_discarded_witness:
  "merge_intervals [2, 1, 4] [Fin 1, Fin 2, Fin (3 / 2)] = ([], [])"
proof -
  have h: "\<forall>k \<le> length (zip [2, 1, 4 :: int] [Fin 1, Fin 2, Fin (3 / 2)]).
      \<not> fge (prefix_exp [2, 1, 4] [Fin 1, Fin 2, Fin (3 / 2)] k) (Fin 5)"
    by (simp add: prefix_exp_def le_Suc_eq all_conj_distrib)
  show ?thesis
    by (rule merge_intervals_all_discarded [OF h])
qed

section \<open>Properties of the layer stack\<close>






section \<open>Properties of the analyzer\<close>

lemma np_arange_edges:
  assumes "step > 0" and "stop > start"
  shows "\<exists>bins. np_arange start stop step = Inr bins \<and> bins \<noteq> [] \<and> sorted bins"
proof -
  let ?n = "nat \<lceil>(stop - start) / step\<rceil>"
  let ?bins = "map (\<lambda>k. start + real k * step) [0..<?n]"
  have "(stop - start) / step > 0" using assms by simp
  then have "?n > 0" by simp
  then have ne: "?bins \<noteq> []" by simp
  have "sorted ?bins"
    using assms(1) by (simp add: sorted_iff_nth_mono)
  moreover have "np_arange start stop step = Inr ?bins"
    using assms(1) by (simp add: np_arange_def)
  ultimately show ?thesis using ne by blast
qed

lemma is_fin_Fin: "is_fin x \<Longrightarrow> \<exists>r. x = Fin r"
  by (cases x) simp_all

lemma is_fin_flo: "is_fin (flo x) \<Longrightarrow> is_fin x \<and> flo x = x"
  by (cases x) (auto simp: fl_def split: if_splits)

lemma is_fin_fadd: "is_fin (fadd x y) \<Longrightarrow> is_fin x \<and> is_fin y"
  by (cases x; cases y) simp_all

lemma is_fin_fsub: "is_fin (fsub x y) \<Longrightarrow> is_fin x \<and> is_fin y"
  by (cases x; cases y) (simp_all add: fsub_def)

lemma is_fin_fmul: "is_fin (fmul x y) \<Longrightarrow> is_fin x \<and> is_fin y"
  by (cases x; cases y) (simp_all split: if_splits)

lemma is_fin_fdiv_num: "is_fin (fdiv x (Fin c)) \<Longrightarrow> is_fin x \<and> c \<noteq> 0"
  by (cases x) (simp_all split: if_splits)

lemma np_arange_f_finite:
  assumes "is_fin (arange_len_value start stop (Fin hh))" and "hh \<noteq> 0"
  shows "\<exists>a b. start = Fin a \<and> stop = Fin b
           \<and> np_arange_f start stop (Fin hh) = np_arange a b hh"
proof -
  have f1: "is_fin (fdiv (flo (fsub stop start)) (Fin hh))"
    and e1: "arange_len_value start stop (Fin hh) = fdiv (flo (fsub stop start)) (Fin hh)"
    using is_fin_flo [of "fdiv (flo (fsub stop start)) (Fin hh)"] assms(1)
    by (simp_all add: arange_len_value_def)
  have f2: "is_fin (flo (fsub stop start))" using is_fin_fdiv_num [OF f1] by simp
  have f3: "is_fin (fsub stop start)" and e3: "flo (fsub stop start) = fsub stop start"
    using is_fin_flo [OF f2] by simp_all
  obtain a b where ab: "start = Fin a" "stop = Fin b"
    using is_fin_fsub [OF f3] is_fin_Fin by blast
  have "fdiv (fsub stop start) (Fin hh) = Fin ((b - a) / hh)"
    using assms(2) by (simp add: ab fsub_def)
  then have "arange_len_value start stop (Fin hh) = Fin ((b - a) / hh)"
    by (simp only: e1 e3)
  then have "np_arange_f start stop (Fin hh) = np_arange a b hh"
    using assms(2) by (simp add: np_arange_f_def np_arange_def ab)
  then show ?thesis using ab by blast
qed

lemma analyzer_init_fields:
  assumes "analyzer_init data = Inr st"
  shows "st_x_min st \<le> st_x_max st" and "st_ni_values st = None" and "st_edges st = None"
    and "st_xi_values st = None" and "st_m st = None" and "st_d st = None"
    and "st_o st = None" and "st_m_ci st = None" and "st_d_ci st = None"
    and "st_chi2_n st = None" and "st_p_n st = None" and "st_res_n st = None"
    and "st_chi2_e st = None" and "st_p_e st = None" and "st_res_e st = None"
    and "st_graphic_values st = data" and "st_N st = length data" and "data \<noteq> []"
proof -
  from assms show ne: "data \<noteq> []" by (auto simp: analyzer_init_def split: if_splits)
  then have "Min (set data) \<le> Max (set data)" by simp
  with assms ne show "st_x_min st \<le> st_x_max st"
    by (auto simp: analyzer_init_def)
qed (use assms in \<open>auto simp: analyzer_init_def split: if_splits\<close>)

lemma sturges_divisor_pos:
  assumes "data \<noteq> []"
  shows "1 \<le> 1 + 3.322 * ln (real (length data))"
proof -
  have "1 \<le> real (length data)" using assms by (cases data) simp_all
  then have "0 \<le> ln (real (length data))" by simp
  then have "0 \<le> 3.322 * ln (real (length data))" by (intro mult_nonneg_nonneg) simp_all
  then show ?thesis by linarith
qed

lemma analyzer_h_value:
  assumes "analyzer_init data = Inr st"
  shows "st_h st = fdiv (fl (st_x_max st - st_x_min st))
                        (Fin (1 + 3.322 * ln (real (length data))))"
  using assms by (auto simp: analyzer_init_def split: if_splits)

lemma analyzer_h_cases:
  assumes "analyzer_init data = Inr st"
  shows "st_h st = PInf
       \<or> (\<exists>hh. st_h st = Fin hh \<and> 0 \<le> hh \<and> hh \<le> st_x_max st - st_x_min st
             \<and> hh * (1 + 3.322 * ln (real (length data))) = st_x_max st - st_x_min st)"
proof -
  note f = analyzer_init_fields [OF assms]
  let ?c = "1 + 3.322 * ln (real (length data))"
  let ?r = "st_x_max st - st_x_min st"
  have c: "1 \<le> ?c" using sturges_divisor_pos [OF f(18)] .
  have r: "0 \<le> ?r" using f(1) by simp
  have t: "0 < overflow_threshold"
    unfolding overflow_threshold_def
    using power_strict_increasing [of 970 1024 "2::real"] by simp
  show ?thesis
  proof (cases "?r \<ge> overflow_threshold")
    case True
    then have "st_h st = PInf"
      using c by (simp add: analyzer_h_value [OF assms] fl_def)
    then show ?thesis by simp
  next
    case False
    then have h: "st_h st = Fin (?r / ?c)"
      using c r t by (simp add: analyzer_h_value [OF assms] fl_def)
    have "?r / ?c \<le> ?r / 1"
      using c r by (intro divide_left_mono) simp_all
    moreover have "0 \<le> ?r / ?c" using c r by simp
    moreover have "?r / ?c * ?c = ?r" using c by simp
    ultimately show ?thesis using h by auto
  qed
qed

lemma analyzer_h_degenerate:
  assumes "analyzer_init data = Inr st"
  shows "fle (st_h st) (Fin 0) = (st_x_max st = st_x_min st)"
proof -
  note f = analyzer_init_fields [OF assms]
  have c: "1 \<le> 1 + 3.322 * ln (real (length data))" using sturges_divisor_pos [OF f(18)] .
  from analyzer_h_cases [OF assms] show ?thesis
  proof
    assume p: "st_h st = PInf"
    then have "fl (st_x_max st - st_x_min st) \<noteq> Fin 0"
      using c by (auto simp: analyzer_h_value [OF assms])
    then have "st_x_max st - st_x_min st \<noteq> 0"
      by (auto simp: fl_def overflow_threshold_def split: if_splits)
    then show ?thesis using p by (simp add: fle_def)
  next
    assume "\<exists>hh. st_h st = Fin hh \<and> 0 \<le> hh \<and> hh \<le> st_x_max st - st_x_min st
             \<and> hh * (1 + 3.322 * ln (real (length data))) = st_x_max st - st_x_min st"
    then obtain hh where h: "st_h st = Fin hh" "0 \<le> hh"
      "hh * (1 + 3.322 * ln (real (length data))) = st_x_max st - st_x_min st" by blast
    have "(hh \<le> 0) = (st_x_max st = st_x_min st)"
      using h(2,3) c by (smt (verit) mult_eq_0_iff mult_pos_pos)
    then show ?thesis using h(1) by (simp add: fle_def)
  qed
qed

lemma arange_start_value:
  assumes "st_h st = Fin hh" and "arange_start st = Fin a"
  shows "a = st_x_min st - hh / 2"
  using assms by (auto simp: arange_start_def fsub_def fl_def split: if_splits)

lemma arange_stop_value:
  assumes "st_h st = Fin hh" and "arange_stop st = Fin b"
  shows "b = st_x_max st + hh * 1.5"
  using assms by (auto simp: arange_stop_def fl_def split: if_splits)

lemma arange_inf_step:
  assumes "st_h st = PInf"
  shows "arange_len_value (arange_start st) (arange_stop st) (st_h st) = NaN"
  using assms by (simp add: arange_len_value_def arange_start_def arange_stop_def fsub_def)

lemma calculate_edges:
  assumes "analyzer_init data = Inr st" and "fgt (st_h st) (Fin 0)"
    and "is_fin (arange_len_value (arange_start st) (arange_stop st) (st_h st))"
  shows "\<exists>bins. np_arange_f (arange_start st) (arange_stop st) (st_h st) = Inr bins
           \<and> bins \<noteq> [] \<and> sorted bins"
proof -
  from analyzer_h_cases [OF assms(1)] assms(3) arange_inf_step [of st]
  obtain hh where h: "st_h st = Fin hh" by auto
  have pos: "0 < hh" using assms(2) h by simp
  from np_arange_f_finite [of "arange_start st" "arange_stop st" hh] assms(3) h pos
  obtain a b where ab: "arange_start st = Fin a" "arange_stop st = Fin b"
    and ar: "np_arange_f (arange_start st) (arange_stop st) (st_h st) = np_arange a b hh"
    by auto
  have "a = st_x_min st - hh / 2" "b = st_x_max st + hh * 1.5"
    using arange_start_value [OF h ab(1)] arange_stop_value [OF h ab(2)] by simp_all
  then have "a < b"
    using analyzer_init_fields(1) [OF assms(1)] pos by simp
  from np_arange_edges [OF pos this] ar show ?thesis by simp
qed

lemma map2_adjacent:
  "map2 f (tl xs) (butlast xs) = map (\<lambda>i. f (xs ! (i + 1)) (xs ! i)) [0..<length xs - 1]"
  by (rule nth_equalityI) (simp_all add: nth_tl nth_butlast)

lemma run_pearson_tests_spec:
  "st_chi2_n (run_pearson_tests lib alpha edges ni m ob st)
     = Some (fst (spec_pearson_test lib (\<lambda>x. norm_cdf lib x m ob) 2 alpha (st_N st) ni edges))"
  "st_p_n (run_pearson_tests lib alpha edges ni m ob st)
     = Some (fst (snd (spec_pearson_test lib (\<lambda>x. norm_cdf lib x m ob) 2 alpha (st_N st)
                         ni edges)))"
  "st_res_n (run_pearson_tests lib alpha edges ni m ob st)
     = Some (snd (snd (spec_pearson_test lib (\<lambda>x. norm_cdf lib x m ob) 2 alpha (st_N st)
                         ni edges)))"
  "st_chi2_e (run_pearson_tests lib alpha edges ni m ob st)
     = Some (fst (spec_pearson_test lib
                    (\<lambda>x. expon_cdf lib x (fdiv (Fin 1) (fdiv (Fin 1) m))) 1 alpha (st_N st)
                    ni edges))"
  "st_p_e (run_pearson_tests lib alpha edges ni m ob st)
     = Some (fst (snd (spec_pearson_test lib
                    (\<lambda>x. expon_cdf lib x (fdiv (Fin 1) (fdiv (Fin 1) m))) 1 alpha (st_N st)
                    ni edges)))"
  "st_res_e (run_pearson_tests lib alpha edges ni m ob st)
     = Some (snd (snd (spec_pearson_test lib
                    (\<lambda>x. expon_cdf lib x (fdiv (Fin 1) (fdiv (Fin 1) m))) 1 alpha (st_N st)
                    ni edges)))"
  by (simp_all add: run_pearson_tests_def spec_pearson_test_def Let_def split_beta
      map2_adjacent o_def)

lemma run_pearson_tests_frame:
  "st_ni_values (run_pearson_tests lib alpha edges ni m ob st) = st_ni_values st"
  "st_edges (run_pearson_tests lib alpha edges ni m ob st) = st_edges st"
  "st_xi_values (run_pearson_tests lib alpha edges ni m ob st) = st_xi_values st"
  "st_m (run_pearson_tests lib alpha edges ni m ob st) = st_m st"
  "st_d (run_pearson_tests lib alpha edges ni m ob st) = st_d st"
  "st_o (run_pearson_tests lib alpha edges ni m ob st) = st_o st"
  by (simp_all add: run_pearson_tests_def Let_def split_beta)

lemma threshold_large: "2 ^ 1023 \<le> overflow_threshold"
proof -
  have "(2::real) ^ 1024 = 2 * 2 ^ 1023"
    using power_Suc [of "2::real" 1023] by simp
  moreover have "(2::real) ^ 970 \<le> 2 ^ 1023"
    by (rule power_increasing) simp_all
  ultimately show ?thesis by (simp add: overflow_threshold_def)
qed

lemma threshold_16: "16 < overflow_threshold"
proof -
  have "(2::real) ^ 5 \<le> 2 ^ 1023" by (rule power_increasing) simp_all
  then show ?thesis using threshold_large by simp
qed

lemma fl_small: "\<bar>r\<bar> < overflow_threshold \<Longrightarrow> fl r = Fin r"
  by (auto simp: fl_def)

lemma calculate_result:
  assumes "analyzer_init data = Inr st" and "fgt (st_h st) (Fin 0)"
    and "is_fin (arange_len_value (arange_start st) (arange_stop st) (st_h st))"
  shows "\<exists>ni edges s1.
      np_histogram data edges = Inr (ni, edges)
    \<and> calculate lib st =
        Inr (run_pearson_tests lib 0.05 edges ni (hist_mean edges ni (length data))
               (fsqrt (hist_variance edges ni (length data))) s1)
    \<and> st_N s1 = length data
    \<and> st_ni_values s1 = Some ni \<and> st_edges s1 = Some edges
    \<and> st_m s1 = Some (hist_mean edges ni (length data))
    \<and> st_d s1 = Some (hist_variance edges ni (length data))
    \<and> st_o s1 = Some (fsqrt (hist_variance edges ni (length data)))"
proof -
  note f = analyzer_init_fields [OF assms(1)]
  from calculate_edges [OF assms] obtain bins
    where ar: "np_arange_f (arange_start st) (arange_stop st) (st_h st) = Inr bins"
      and ne: "bins \<noteq> []" and srt: "sorted bins" by blast
  obtain ni where hist: "np_histogram data bins = Inr (ni, bins)"
    using ne srt by (simp add: np_histogram_def)
  have g: "\<not> fle (st_h st) (Fin 0)"
    using assms(2) by (cases "st_h st") (simp_all add: fle_def)
  let ?m = "hist_mean bins ni (length data)"
  let ?d = "hist_variance bins ni (length data)"
  let ?ob = "fsqrt ?d"
  let ?n1 = "int (length data) - 1"
  let ?margin = "fmul (t_ppf lib (1 - 0.05 / 2) ?n1) (fdiv ?ob (Fin (sqrt (real (length data)))))"
  let ?s1 = "st \<lparr> st_ni_values := Some ni, st_edges := Some bins,
                   st_xi_values := Some (midpoints bins), st_m := Some ?m, st_d := Some ?d,
                   st_o := Some ?ob, st_m_ci := Some (fsub ?m ?margin, fadd ?m ?margin),
                   st_d_ci := Some (fdiv (fmul (Fin (real_of_int ?n1)) ?d)
                                      (chi2_ppf lib (1 - 0.05 / 2) ?n1),
                                    fdiv (fmul (Fin (real_of_int ?n1)) ?d)
                                      (chi2_ppf lib (0.05 / 2) ?n1)) \<rparr>"
  have c: "calculate lib st = Inr (run_pearson_tests lib 0.05 bins ni ?m ?ob ?s1)"
    using g ar hist
    by (simp add: calculate_def Let_def f(16,17) hist_mean_def hist_variance_def midpoints_def)
  have "st_N ?s1 = length data" using f(17) by simp
  then show ?thesis using hist c by (intro exI [of _ ni] exI [of _ bins] exI [of _ ?s1]) simp
qed

text \<open>
  Claim C9, as the code has it. For every non-empty sample whose Sturges step is positive
  and for which the length value \<open>(stop - start) / h\<close> that \<open>np.arange\<close> computes from the
  bounds of the bins is a finite float (no overflow in the step, the bounds or their
  difference), \<open>calculate\<close> runs to the end without raising, and what it stores for each
  test is what the specification's test gives on the histogram of the sample: for the
  normal distribution with the mean \<open>m\<close> and the deviation \<open>o\<close> of the histogram and 2
  fitted parameters, for the exponential distribution with rate \<open>1 / m\<close> (scale
  \<open>1 / (1 / m)\<close>) and 1 fitted parameter. So the statistic is the Pearson sum over the
  merged bins, or \<open>nan\<close> with fewer than 3 and 2 merged bins, the p-value is
  \<open>1 - chi2.cdf\<close> of the statistic at \<open>max(1, bins - 3)\<close> and \<open>max(1, bins - 2)\<close> degrees
  of freedom, and the decision is \<open>"Accepted"\<close> exactly when the p-value is at least
  \<open>alpha = 0.05\<close> and \<open>"Rejected"\<close> otherwise, as for a \<open>nan\<close> p-value.
\<close>

theorem calculate_decisions:
  assumes "analyzer_init data = Inr st" and "fgt (st_h st) (Fin 0)"
    and "is_fin (arange_len_value (arange_start st) (arange_stop st) (st_h st))"
  shows "\<exists>st' ni edges m ob.
      calculate lib st = Inr st'
    \<and> np_histogram data edges = Inr (ni, edges)
    \<and> m = hist_mean edges ni (length data)
    \<and> ob = fsqrt (hist_variance edges ni (length data))
    \<and> st_ni_values st' = Some ni \<and> st_edges st' = Some edges
    \<and> st_m st' = Some m \<and> st_o st' = Some ob
    \<and> st_chi2_n st' = Some (fst (spec_pearson_test lib (\<lambda>x. norm_cdf lib x m ob) 2 0.05
                                    (length data) ni edges))
    \<and> st_p_n st' = Some (fst (snd (spec_pearson_test lib (\<lambda>x. norm_cdf lib x m ob) 2 0.05
                                    (length data) ni edges)))
    \<and> st_res_n st' = Some (snd (snd (spec_pearson_test lib (\<lambda>x. norm_cdf lib x m ob) 2 0.05
                                    (length data) ni edges)))
    \<and> st_chi2_e st' = Some (fst (spec_pearson_test lib
                                (\<lambda>x. expon_cdf lib x (fdiv (Fin 1) (fdiv (Fin 1) m))) 1 0.05
                                (length data) ni edges))
    \<and> st_p_e st' = Some (fst (snd (spec_pearson_test lib
                                (\<lambda>x. expon_cdf lib x (fdiv (Fin 1) (fdiv (Fin 1) m))) 1 0.05
                                (length data) ni edges)))
    \<and> st_res_e st' = Some (snd (snd (spec_pearson_test lib
                                (\<lambda>x. expon_cdf lib x (fdiv (Fin 1) (fdiv (Fin 1) m))) 1 0.05
                                (length data) ni edges)))"
proof -
  from calculate_result [OF assms, of lib] obtain ni edges s1
    where hist: "np_histogram data edges = Inr (ni, edges)"
      and c: "calculate lib st =
        Inr (run_pearson_tests lib 0.05 edges ni (hist_mean edges ni (length data))
               (fsqrt (hist_variance edges ni (length data))) s1)"
      and s1: "st_N s1 = length data" "st_ni_values s1 = Some ni" "st_edges s1 = Some edges"
        "st_m s1 = Some (hist_mean edges ni (length data))"
        "st_o s1 = Some (fsqrt (hist_variance edges ni (length data)))"
    by blast
  let ?m = "hist_mean edges ni (length data)"
  let ?ob = "fsqrt (hist_variance edges ni (length data))"
  let ?st' = "run_pearson_tests lib 0.05 edges ni ?m ?ob s1"
  note sp = run_pearson_tests_spec [of lib "0.05" edges ni ?m ?ob s1, unfolded s1(1)]
  note fr = run_pearson_tests_frame [of lib "0.05" edges ni ?m ?ob s1]
  have "calculate lib st = Inr ?st'
    \<and> np_histogram data edges = Inr (ni, edges)
    \<and> ?m = hist_mean edges ni (length data)
    \<and> ?ob = fsqrt (hist_variance edges ni (length data))
    \<and> st_ni_values ?st' = Some ni \<and> st_edges ?st' = Some edges
    \<and> st_m ?st' = Some ?m \<and> st_o ?st' = Some ?ob
    \<and> st_chi2_n ?st' = Some (fst (spec_pearson_test lib (\<lambda>x. norm_cdf lib x ?m ?ob) 2 0.05
                                    (length data) ni edges))
    \<and> st_p_n ?st' = Some (fst (snd (spec_pearson_test lib (\<lambda>x. norm_cdf lib x ?m ?ob) 2 0.05
                                    (length data) ni edges)))
    \<and> st_res_n ?st' = Some (snd (snd (spec_pearson_test lib (\<lambda>x. norm_cdf lib x ?m ?ob) 2 0.05
                                    (length data) ni edges)))
    \<and> st_chi2_e ?st' = Some (fst (spec_pearson_test lib
                                (\<lambda>x. expon_cdf lib x (fdiv (Fin 1) (fdiv (Fin 1) ?m))) 1 0.05
                                (length data) ni edges))
    \<and> st_p_e ?st' = Some (fst (snd (spec_pearson_test lib
                                (\<lambda>x. expon_cdf lib x (fdiv (Fin 1) (fdiv (Fin 1) ?m))) 1 0.05
                                (length data) ni edges)))
    \<and> st_res_e ?st' = Some (snd (snd (spec_pearson_test lib
                                (\<lambda>x. expon_cdf lib x (fdiv (Fin 1) (fdiv (Fin 1) ?m))) 1 0.05
                                (length data) ni edges)))"
    apply (intro conjI)
                 apply (rule c)
                apply (rule hist)
               apply (rule refl)
              apply (rule refl)
             apply (simp only: fr s1)
            apply (simp only: fr s1)
           apply (simp only: fr s1)
          apply (simp only: fr s1)
         apply (rule sp(1))
        apply (rule sp(2))
       apply (rule sp(3))
      apply (rule sp(4))
     apply (rule sp(5))
    apply (rule sp(6))
    done
  then show ?thesis by blast
qed

lemma spec_pearson_test_parts:
  "snd (snd (spec_pearson_test lib cdf k alpha n ni edges))
     = (if fge (fst (snd (spec_pearson_test lib cdf k alpha n ni edges))) (Fin alpha)
        then ''Accepted'' else ''Rejected'')"
  "fst (snd (spec_pearson_test lib cdf k alpha n ni edges)) = NaN
     \<Longrightarrow> snd (snd (spec_pearson_test lib cdf k alpha n ni edges)) = ''Rejected''"
  by (simp_all add: spec_pearson_test_def Let_def)

lemma ratio_plus_two:
  fixes r c :: real
  assumes "0 < r" and "0 < c"
  shows "(r + 2 * (r / c)) / (r / c) = c + 2"
  using assms by (simp add: field_simps)

lemma arange_finite_if_moderate:
  assumes "analyzer_init data = Inr st" and "st_x_min st < st_x_max st"
    and "\<bar>st_x_min st\<bar> \<le> B" and "\<bar>st_x_max st\<bar> \<le> B" and "6 * B < overflow_threshold"
    and "3 + 3.322 * ln (real (length data)) < overflow_threshold"
  shows "fgt (st_h st) (Fin 0)"
    and "is_fin (arange_len_value (arange_start st) (arange_stop st) (st_h st))"
proof -
  note f = analyzer_init_fields [OF assms(1)]
  let ?c = "1 + 3.322 * ln (real (length data))"
  let ?r = "st_x_max st - st_x_min st"
  have c: "1 \<le> ?c" using sturges_divisor_pos [OF f(18)] .
  have r: "0 < ?r" "?r \<le> 2 * B" using assms(2,3,4) by simp_all
  have B: "0 \<le> B" using assms(3) by simp
  define hh where "hh = ?r / ?c"
  have h: "st_h st = Fin hh"
    using c r assms(5) B
    by (simp add: analyzer_h_value [OF assms(1)] fl_small hh_def)
  have hp: "0 < hh" using c r by (simp add: hh_def)
  have "hh \<le> ?r / 1" unfolding hh_def using c r by (intro divide_left_mono) simp_all
  then have hr: "hh \<le> 2 * B" using r by simp
  show "fgt (st_h st) (Fin 0)" using h hp by simp
  have a: "arange_start st = Fin (st_x_min st - hh / 2)"
    using hp hr assms(3,5) B by (simp add: arange_start_def h fsub_def fl_small)
  have b: "arange_stop st = Fin (st_x_max st + hh * 1.5)"
    using hp hr assms(4,5) B by (simp add: arange_stop_def h fl_small)
  have "st_x_max st + hh * 1.5 - (st_x_min st - hh / 2) = ?r + 2 * hh"
    by argo
  then have "(st_x_max st + hh * 1.5 - (st_x_min st - hh / 2)) / hh = (?r + 2 * hh) / hh"
    by (rule arg_cong)
  also have "\<dots> = ?c + 2"
    unfolding hh_def using r(1) c by (intro ratio_plus_two) simp_all
  finally have v: "(st_x_max st + hh * 1.5 - (st_x_min st - hh / 2)) / hh = ?c + 2" .
  have d: "\<bar>st_x_max st + hh * 1.5 - (st_x_min st - hh / 2)\<bar> < overflow_threshold"
    using hp hr r assms(5) B by simp
  let ?D = "st_x_max st + hh * 1.5 - (st_x_min st - hh / 2)"
  have e1: "fsub (arange_stop st) (arange_start st) = Fin ?D"
    by (simp only: a b fsub_def fneg.simps fadd.simps) simp
  have e2: "flo (Fin ?D) = Fin ?D"
    using fl_small [OF d] by (simp only: flo.simps)
  have e3: "fdiv (Fin ?D) (Fin hh) = Fin (?D / hh)"
    using hp by simp
  have "\<bar>?c + 2\<bar> < overflow_threshold" using c assms(6) by simp
  then have e4: "flo (Fin (?D / hh)) = Fin (?c + 2)"
    using fl_small [of "?c + 2"] by (simp only: flo.simps v)
  have "arange_len_value (arange_start st) (arange_stop st) (st_h st) = Fin (?c + 2)"
    by (simp only: arange_len_value_def e1 e2 h e3 e4)
  then show "is_fin (arange_len_value (arange_start st) (arange_stop st) (st_h st))" by simp
qed

text \<open>
  Claim C8, as the code has it. For a non-empty sample whose Sturges step is not positive
  (one observation, or all observations equal), \<open>calculate\<close> raises nothing: it returns at
  its guard and leaves the analyzer as the constructor made it, without histogram,
  statistics, confidence intervals or test results.
\<close>

theorem calculate_degenerate_skips:
  assumes "analyzer_init data = Inr st" and "fle (st_h st) (Fin 0)"
  shows "calculate lib st = Inr st
         \<and> st_ni_values st = None \<and> st_edges st = None \<and> st_xi_values st = None
         \<and> st_m st = None \<and> st_d st = None \<and> st_o st = None
         \<and> st_m_ci st = None \<and> st_d_ci st = None
         \<and> st_chi2_n st = None \<and> st_p_n st = None \<and> st_res_n st = None
         \<and> st_chi2_e st = None \<and> st_p_e st = None \<and> st_res_e st = None"
  using assms(2) analyzer_init_fields(2-15) [OF assms(1)] by (simp add: calculate_def)

lemma analyzer_init_ones:
  "analyzer_init [1, 1] =
     Inr \<lparr> st_graphic_values = [1, 1], st_N = 2, st_x_min = 1, st_x_max = 1, st_h = Fin 0,
           st_ni_values = None, st_edges = None, st_xi_values = None,
           st_m = None, st_d = None, st_o = None, st_m_ci = None, st_d_ci = None,
           st_chi2_n = None, st_p_n = None, st_res_n = None,
           st_chi2_e = None, st_p_e = None, st_res_e = None \<rparr>"
proof -
  define c where "c = 1 + 3.322 * ln (real (length [1, 1 :: real]))"
  have "1 \<le> c"
    unfolding c_def by (rule sturges_divisor_pos) simp
  then have "c \<noteq> 0" by simp
  moreover have "fl 0 = Fin 0"
    using threshold_16 by (simp add: fl_small)
  ultimately have "fdiv (fl 0) (Fin c) = Fin 0" by simp
  then have "fdiv (fl (Max (set [1, 1 :: real]) - Min (set [1, 1 :: real])))
               (Fin (1 + 3.322 * ln (real (length [1, 1 :: real])))) = Fin 0"
    unfolding c_def by simp
  then show ?thesis
    unfolding analyzer_init_def by simp
qed

theorem calculate_degenerate_skips_witness:
  "analyzer_init [1, 1] =
     Inr \<lparr> st_graphic_values = [1, 1], st_N = 2, st_x_min = 1, st_x_max = 1, st_h = Fin 0,
           st_ni_values = None, st_edges = None, st_xi_values = None,
           st_m = None, st_d = None, st_o = None, st_m_ci = None, st_d_ci = None,
           st_chi2_n = None, st_p_n = None, st_res_n = None,
           st_chi2_e = None, st_p_e = None, st_res_e = None \<rparr>
   \<and> calculate nan_stats
       \<lparr> st_graphic_values = [1, 1], st_N = 2, st_x_min = 1, st_x_max = 1, st_h = Fin 0,
         st_ni_values = None, st_edges = None, st_xi_values = None,
         st_m = None, st_d = None, st_o = None, st_m_ci = None, st_d_ci = None,
         st_chi2_n = None, st_p_n = None, st_res_n = None,
         st_chi2_e = None, st_p_e = None, st_res_e = None \<rparr>
     = Inr \<lparr> st_graphic_values = [1, 1], st_N = 2, st_x_min = 1, st_x_max = 1, st_h = Fin 0,
         st_ni_values = None, st_edges = None, st_xi_values = None,
         st_m = None, st_d = None, st_o = None, st_m_ci = None, st_d_ci = None,
         st_chi2_n = None, st_p_n = None, st_res_n = None,
         st_chi2_e = None, st_p_e = None, st_res_e = None \<rparr>"
proof -
  let ?st = "\<lparr> st_graphic_values = [1, 1], st_N = 2, st_x_min = 1, st_x_max = 1, st_h = Fin 0,
         st_ni_values = None, st_edges = None, st_xi_values = None,
         st_m = None, st_d = None, st_o = None, st_m_ci = None, st_d_ci = None,
         st_chi2_n = None, st_p_n = None, st_res_n = None,
         st_chi2_e = None, st_p_e = None, st_res_e = None \<rparr>"
  have h: "fle (st_h ?st) (Fin 0)" by (simp add: fle_def)
  from calculate_degenerate_skips [OF analyzer_init_ones h, of nan_stats] analyzer_init_ones
  show ?thesis by simp
qed

text \<open>
  The claim C8 as the specification states it fails: for the sample \<open>[1, 1]\<close> the step is 0
  and \<open>calculate\<close> does not fail with an error, it returns normally.
\<close>

theorem calculate_degenerate_counterexample:
  "analyzer_init [1, 1] =
     Inr \<lparr> st_graphic_values = [1, 1], st_N = 2, st_x_min = 1, st_x_max = 1, st_h = Fin 0,
           st_ni_values = None, st_edges = None, st_xi_values = None,
           st_m = None, st_d = None, st_o = None, st_m_ci = None, st_d_ci = None,
           st_chi2_n = None, st_p_n = None, st_res_n = None,
           st_chi2_e = None, st_p_e = None, st_res_e = None \<rparr>
   \<and> isl (calculate nan_stats
       \<lparr> st_graphic_values = [1, 1], st_N = 2, st_x_min = 1, st_x_max = 1, st_h = Fin 0,
         st_ni_values = None, st_edges = None, st_xi_values = None,
         st_m = None, st_d = None, st_o = None, st_m_ci = None, st_d_ci = None,
         st_chi2_n = None, st_p_n = None, st_res_n = None,
         st_chi2_e = None, st_p_e = None, st_res_e = None \<rparr>) = False
   \<and> fle (st_h \<lparr> st_graphic_values = [1, 1], st_N = 2, st_x_min = 1, st_x_max = 1,
         st_h = Fin 0,
         st_ni_values = None, st_edges = None, st_xi_values = None,
         st_m = None, st_d = None, st_o = None, st_m_ci = None, st_d_ci = None,
         st_chi2_n = None, st_p_n = None, st_res_n = None,
         st_chi2_e = None, st_p_e = None, st_res_e = None \<rparr>) (Fin 0)"
  using analyzer_init_ones by (simp add: calculate_def fle_def)

theorem calculate_decisions_witness:
  "\<exists>st st'. analyzer_init [1, 2] = Inr st \<and> fgt (st_h st) (Fin 0)
      \<and> is_fin (arange_len_value (arange_start st) (arange_stop st) (st_h st))
      \<and> calculate nan_stats st = Inr st'
      \<and> st_p_n st' = Some NaN \<and> st_res_n st' = Some ''Rejected''
      \<and> st_p_e st' = Some NaN \<and> st_res_e st' = Some ''Rejected''"
proof -
  obtain st where i: "analyzer_init [1, 2] = Inr st"
    by (simp add: analyzer_init_def)
  have x: "st_x_min st = 1" "st_x_max st = 2"
    using i by (auto simp: analyzer_init_def)
  have "ln (2::real) \<le> 2 - 1" by (rule ln_le_minus_one) simp
  then have l: "3 + 3.322 * ln (real (length [1, 2 :: real])) < overflow_threshold"
    using threshold_16 by simp
  have b: "6 * (2::real) < overflow_threshold" using threshold_16 by simp
  have pos: "fgt (st_h st) (Fin 0)"
    by (rule arange_finite_if_moderate(1) [OF i _ _ _ b l]) (simp_all add: x)
  have fin: "is_fin (arange_len_value (arange_start st) (arange_stop st) (st_h st))"
    by (rule arange_finite_if_moderate(2) [OF i _ _ _ b l]) (simp_all add: x)
  from calculate_decisions [OF i pos fin, of nan_stats]
  obtain st' ni edges m ob where r: "calculate nan_stats st = Inr st'"
    "st_p_n st' = Some (fst (snd (spec_pearson_test nan_stats (\<lambda>x. norm_cdf nan_stats x m ob) 2
                                    0.05 (length [1, 2 :: real]) ni edges)))"
    "st_res_n st' = Some (snd (snd (spec_pearson_test nan_stats
                                    (\<lambda>x. norm_cdf nan_stats x m ob) 2
                                    0.05 (length [1, 2 :: real]) ni edges)))"
    "st_p_e st' = Some (fst (snd (spec_pearson_test nan_stats
                                (\<lambda>x. expon_cdf nan_stats x (fdiv (Fin 1) (fdiv (Fin 1) m))) 1
                                0.05 (length [1, 2 :: real]) ni edges)))"
    "st_res_e st' = Some (snd (snd (spec_pearson_test nan_stats
                                (\<lambda>x. expon_cdf nan_stats x (fdiv (Fin 1) (fdiv (Fin 1) m))) 1
                                0.05 (length [1, 2 :: real]) ni edges)))"
    by blast
  have "st_p_n st' = Some NaN" "st_res_n st' = Some ''Rejected''"
    "st_p_e st' = Some NaN" "st_res_e st' = Some ''Rejected''"
    unfolding r(2-5)
    by (simp_all add: spec_pearson_test_def Let_def nan_stats_def fsub_def)
  then show ?thesis using i pos fin r(1) by blast
qed

text \<open>
  The claim C9 as the specification states it fails: for the sample of the two floats
  \<open>-2^1023\<close> and \<open>2^1023\<close> the difference \<open>x_max - x_min\<close> overflows, the step is \<open>inf\<close>,
  which is positive, the bounds of the bins are \<open>-inf\<close> and \<open>inf\<close>, and \<open>np.arange\<close> raises
  \<open>ValueError\<close>: no test is run and no decision is made.
\<close>

theorem calculate_overflow_counterexample:
  "analyzer_init [- (2 ^ 1023), 2 ^ 1023] =
     Inr \<lparr> st_graphic_values = [- (2 ^ 1023), 2 ^ 1023], st_N = 2,
           st_x_min = - (2 ^ 1023), st_x_max = 2 ^ 1023, st_h = PInf,
           st_ni_values = None, st_edges = None, st_xi_values = None,
           st_m = None, st_d = None, st_o = None, st_m_ci = None, st_d_ci = None,
           st_chi2_n = None, st_p_n = None, st_res_n = None,
           st_chi2_e = None, st_p_e = None, st_res_e = None \<rparr>
   \<and> fgt PInf (Fin 0)
   \<and> calculate nan_stats
       \<lparr> st_graphic_values = [- (2 ^ 1023), 2 ^ 1023], st_N = 2,
         st_x_min = - (2 ^ 1023), st_x_max = 2 ^ 1023, st_h = PInf,
         st_ni_values = None, st_edges = None, st_xi_values = None,
         st_m = None, st_d = None, st_o = None, st_m_ci = None, st_d_ci = None,
         st_chi2_n = None, st_p_n = None, st_res_n = None,
         st_chi2_e = None, st_p_e = None, st_res_e = None \<rparr>
     = Inl ValueError"
proof -
  have c: "0 \<le> 1 + 3.322 * ln (real (length [- (2 ^ 1023), 2 ^ 1023 :: real]))"
    using sturges_divisor_pos [of "[- (2 ^ 1023), 2 ^ 1023 :: real]"] by simp
  have "fl (2 ^ 1023 - - (2 ^ 1023)) = PInf"
    by (simp add: fl_def overflow_threshold_def)
  then have h: "fdiv (fl (2 ^ 1023 - - (2 ^ 1023)))
                  (Fin (1 + 3.322 * ln (real (length [- (2 ^ 1023), 2 ^ 1023 :: real])))) = PInf"
    using c by simp
  have m: "Max (set [- (2 ^ 1023), 2 ^ 1023 :: real]) = 2 ^ 1023"
    "Min (set [- (2 ^ 1023), 2 ^ 1023 :: real]) = - (2 ^ 1023)"
    by simp_all
  have i: "analyzer_init [- (2 ^ 1023), 2 ^ 1023] =
     Inr \<lparr> st_graphic_values = [- (2 ^ 1023), 2 ^ 1023], st_N = 2,
           st_x_min = - (2 ^ 1023), st_x_max = 2 ^ 1023, st_h = PInf,
           st_ni_values = None, st_edges = None, st_xi_values = None,
           st_m = None, st_d = None, st_o = None, st_m_ci = None, st_d_ci = None,
           st_chi2_n = None, st_p_n = None, st_res_n = None,
           st_chi2_e = None, st_p_e = None, st_res_e = None \<rparr>"
    unfolding analyzer_init_def m using h by simp
  show ?thesis
    using i
    by (simp add: calculate_def fle_def np_arange_f_def arange_len_value_def arange_start_def
        arange_stop_def fsub_def)
qed

section \<open>Properties of the normalisation\<close>

lemma idiv_scalar_shape [simp]:
  "nrows (idiv_scalar a c) = nrows a" "ncols (idiv_scalar a c) = ncols a"
  "wf_array2 (idiv_scalar a c) = wf_array2 a"
  by (simp_all add: idiv_scalar_def nrows_def wf_array2_def list_all_iff)

lemma imul2_exact:
  assumes "nrows a = p" and "ncols a = q"
  shows "imul2 a p q s =
     Inr (Array2 q (map (\<lambda>i. map (\<lambda>j. fmul (rows a ! i ! j) (s i j)) [0..<q]) [0..<p]))"
proof -
  have "map (\<lambda>i. map (\<lambda>j. fmul (rows a ! i ! j)
                 (s (if p = 1 then 0 else i) (if q = 1 then 0 else j))) [0..<q]) [0..<p]
      = map (\<lambda>i. map (\<lambda>j. fmul (rows a ! i ! j) (s i j)) [0..<q]) [0..<p]"
    by (intro map_cong refl) auto
  then show ?thesis using assms by (simp add: imul2_def)
qed

lemma imul2_column:
  assumes "nrows a = p"
  shows "imul2 a p 1 s =
     Inr (Array2 (ncols a) (map (\<lambda>i. map (\<lambda>j. fmul (rows a ! i ! j) (s i 0)) [0..<ncols a]) [0..<p]))"
proof -
  have "map (\<lambda>i. map (\<lambda>j. fmul (rows a ! i ! j)
                 (s (if p = 1 then 0 else i) (if (1::nat) = 1 then 0 else j))) [0..<ncols a]) [0..<p]
      = map (\<lambda>i. map (\<lambda>j. fmul (rows a ! i ! j) (s i 0)) [0..<ncols a]) [0..<p]"
    by (intro map_cong refl) auto
  then show ?thesis using assms by (simp add: imul2_def)
qed

lemma imul1_exact:
  assumes "length xs = p"
  shows "imul1 xs p s = Inr (map (\<lambda>i. fmul (xs ! i) (s i)) [0..<p])"
proof -
  have "map (\<lambda>i. fmul (xs ! i) (s (if p = 1 then 0 else i))) [0..<p]
      = map (\<lambda>i. fmul (xs ! i) (s i)) [0..<p]"
    by (intro map_cong refl) auto
  then show ?thesis using assms by (simp add: imul1_def)
qed

lemma sum_axis_lengths [simp]:
  "length (sum_axis1 a) = nrows a" "length (sum_axis0 a) = ncols a"
  by (simp_all add: sum_axis1_def sum_axis0_def nrows_def)

lemma idiv_rows_nth:
  assumes "wf_array2 a" "i < nrows a" "j < ncols a"
  shows "rows (idiv_scalar a c) ! i ! j = fdiv (rows a ! i ! j) (Fin (real_of_int c))"
  using assms by (simp add: idiv_scalar_def nrows_def wf_array2_def list_all_iff)

lemma imul2_idiv:
  assumes "wf_array2 a" "nrows a = p" "ncols a = q"
  shows "imul2 (idiv_scalar a (np input_data)) p q (scale2_ra input_data) = Inr (scaled2 input_data a)"
proof -
  have "map (\<lambda>i. map (\<lambda>j. fmul (rows (idiv_scalar a (np input_data)) ! i ! j) (scale2_ra input_data i j)) [0..<q]) [0..<p]
      = map (\<lambda>i. map (\<lambda>j. fmul (fdiv (rows a ! i ! j) (Fin (real_of_int (np input_data))))
                               (scale2_ra input_data i j)) [0..<q]) [0..<p]"
    using assms by (intro map_cong refl) (simp add: idiv_rows_nth)
  then show ?thesis
    using assms imul2_exact [of "idiv_scalar a (np input_data)" p q "scale2_ra input_data"]
    by (simp add: scaled2_def)
qed

lemma imul2_idiv_ab:
  assumes "wf_array2 a" "nrows a = p"
  shows "imul2 (idiv_scalar a (np input_data)) p (Suc 0) (scale_ab input_data) = Inr (scaled_ab input_data a)"
proof -
  have "map (\<lambda>i. map (\<lambda>j. fmul (rows (idiv_scalar a (np input_data)) ! i ! j) (scale_ab input_data i 0)) [0..<ncols a]) [0..<p]
      = map (\<lambda>i. map (\<lambda>j. fmul (fdiv (rows a ! i ! j) (Fin (real_of_int (np input_data))))
                               (scale_ab input_data i 0)) [0..<ncols a]) [0..<p]"
    using assms by (intro map_cong refl) (simp add: idiv_rows_nth)
  then show ?thesis
    using assms imul2_column [of "idiv_scalar a (np input_data)" p "scale_ab input_data"]
    by (simp add: scaled_ab_def)
qed

lemma rescale_result:
  assumes "rd_ra output < length h" "ab_rz output < length h" "tt_ra output < length h"
    and "rd_ra output \<noteq> ab_rz output" "rd_ra output \<noteq> tt_ra output"
    and "ab_rz output \<noteq> tt_ra output"
    and "h ! rd_ra output = idiv_scalar A (np input_data)"
    and "h ! tt_ra output = idiv_scalar T (np input_data)"
    and "h ! ab_rz output = idiv_scalar B (np input_data)"
    and "wf_array2 A" "wf_array2 T" "wf_array2 B"
    and "nrows A = nat (nr input_data)" "ncols A = nat (na input_data)"
    and "nrows T = nat (nr input_data)" "ncols T = nat (na input_data)"
    and "nrows B = nat (nr input_data)"
    and "length rd_r0 = nat (nr input_data)" "length tt_r0 = nat (nr input_data)"
    and "length rd_a0 = nat (na input_data)" "length tt_a0 = nat (na input_data)"
  shows "rescale input_data output rd_r0 rd_a0 ab_r0 ab_z0 tt_r0 tt_a0 h =
     (if dz input_data = 0 then Inl ZeroDivisionError
      else Inr (output
        \<lparr> rd_r := Some (map (\<lambda>i. fmul (rd_r0 ! i) (scale_r input_data i)) [0..<nat (nr input_data)]),
          rd_a := Some (map (\<lambda>j. fmul (rd_a0 ! j) (scale_a input_data j)) [0..<nat (na input_data)]),
          ab_r := Some ab_r0,
          ab_z := Some (map (\<lambda>x. fmul x (Fin (1.0 / dz input_data))) ab_z0),
          tt_r := Some (map (\<lambda>i. fmul (tt_r0 ! i) (scale_r input_data i)) [0..<nat (nr input_data)]),
          tt_a := Some (map (\<lambda>j. fmul (tt_a0 ! j) (scale_a input_data j)) [0..<nat (na input_data)]) \<rparr>),
      h[rd_ra output := scaled2 input_data A, tt_ra output := scaled2 input_data T,
        ab_rz output := scaled_ab input_data B])"
proof -
  have s1: "imul2 (h ! rd_ra output) (nat (nr input_data)) (nat (na input_data)) (scale2_ra input_data)
              = Inr (scaled2 input_data A)"
    using assms by (simp add: imul2_idiv)
  have s2: "imul2 (h[rd_ra output := scaled2 input_data A] ! tt_ra output)
              (nat (nr input_data)) (nat (na input_data)) (scale2_ra input_data)
              = Inr (scaled2 input_data T)"
    using assms by (simp add: imul2_idiv)
  have s7: "imul2 (h[rd_ra output := scaled2 input_data A, tt_ra output := scaled2 input_data T]
                     ! ab_rz output) (nat (nr input_data)) (Suc 0) (scale_ab input_data)
              = Inr (scaled_ab input_data B)"
    using assms by (simp add: imul2_idiv_ab)
  show ?thesis
    unfolding rescale_def Let_def
    using assms(18-21) by (simp add: s1 s2 s7 imul1_exact)
qed

lemma process_output_result:
  assumes "shapes_ok input_data output h"
  shows "process_output input_data output h =
     (if dz input_data = 0 then Inl ZeroDivisionError
      else Inr (output
        \<lparr> rd_r := Some (map (\<lambda>i. fmul (sum_axis1 (idiv_scalar (h ! rd_ra output) (np input_data)) ! i)
                                    (scale_r input_data i)) [0..<nat (nr input_data)]),
          rd_a := Some (map (\<lambda>j. fmul (sum_axis0 (idiv_scalar (h ! rd_ra output) (np input_data)) ! j)
                                    (scale_a input_data j)) [0..<nat (na input_data)]),
          ab_r := Some (sum_axis1 (idiv_scalar (h ! ab_rz output) (np input_data))),
          ab_z := Some (map (\<lambda>x. fmul x (Fin (1.0 / dz input_data)))
                         (sum_axis0 (idiv_scalar (h ! ab_rz output) (np input_data)))),
          tt_r := Some (map (\<lambda>i. fmul (sum_axis1 (idiv_scalar (h ! tt_ra output) (np input_data)) ! i)
                                    (scale_r input_data i)) [0..<nat (nr input_data)]),
          tt_a := Some (map (\<lambda>j. fmul (sum_axis0 (idiv_scalar (h ! tt_ra output) (np input_data)) ! j)
                                    (scale_a input_data j)) [0..<nat (na input_data)]),
          rd := Some (sum_all (idiv_scalar (h ! rd_ra output) (np input_data))),
          ab := Some (sum_all (idiv_scalar (h ! ab_rz output) (np input_data))),
          tt := Some (sum_all (idiv_scalar (h ! tt_ra output) (np input_data))) \<rparr>),
      h[rd_ra output := scaled2 input_data (h ! rd_ra output),
        tt_ra output := scaled2 input_data (h ! tt_ra output),
        ab_rz output := scaled_ab input_data (h ! ab_rz output)])"
proof -
  let ?h3 = "h[rd_ra output := idiv_scalar (h ! rd_ra output) (np input_data),
               ab_rz output := idiv_scalar (h ! ab_rz output) (np input_data),
               tt_ra output := idiv_scalar (h ! tt_ra output) (np input_data)]"
  let ?o1 = "output \<lparr> rd := Some (sum_all (?h3 ! rd_ra output)),
                       ab := Some (sum_all (?h3 ! ab_rz output)),
                       tt := Some (sum_all (?h3 ! tt_ra output)) \<rparr>"
  have p: "process_output input_data output h =
             rescale input_data ?o1 (sum_axis1 (?h3 ! rd_ra output)) (sum_axis0 (?h3 ! rd_ra output))
               (sum_axis1 (?h3 ! ab_rz output)) (sum_axis0 (?h3 ! ab_rz output))
               (sum_axis1 (?h3 ! tt_ra output)) (sum_axis0 (?h3 ! tt_ra output)) ?h3"
    using assms by (simp add: process_output_def Let_def shapes_ok_def)
  have r: "?h3 ! rd_ra output = idiv_scalar (h ! rd_ra output) (np input_data)"
    "?h3 ! ab_rz output = idiv_scalar (h ! ab_rz output) (np input_data)"
    "?h3 ! tt_ra output = idiv_scalar (h ! tt_ra output) (np input_data)"
    using assms by (simp_all add: shapes_ok_def)
  have upd: "?h3[rd_ra output := X, tt_ra output := Y, ab_rz output := Z]
           = h[rd_ra output := X, tt_ra output := Y, ab_rz output := Z]" for X Y Z
    using assms by (simp add: shapes_ok_def list_update_swap)
  show ?thesis
    unfolding p
    apply (subst rescale_result [where A = "h ! rd_ra output" and T = "h ! tt_ra output"
          and B = "h ! ab_rz output"])
    using assms apply (simp_all add: shapes_ok_def r upd)
    done
qed







lemma fadd_zero_left [simp]: "fadd (Fin 0) x = x"
  by (cases x) simp_all

lemma fsum_Cons [simp]: "fsum (x # xs) = fadd x (fsum xs)"
  by (simp add: fsum_def)

lemma fsum_Nil [simp]: "fsum [] = Fin 0"
  by (simp add: fsum_def)

lemma fsum_zeros_append [simp]: "fsum (replicate n (Fin 0) @ xs) = fsum xs"
  by (induction n) simp_all

lemma fsum_zero_rows [simp]: "fsum (concat (replicate m (replicate n (Fin 0)))) = Fin 0"
  by (induction m) simp_all

lemma sum_all_single_hit:
  assumes "c \<noteq> 0"
  shows "sum_all (idiv_scalar
           (Array2 q ((Fin (real_of_int c) # replicate k (Fin 0))
                        # replicate m (replicate n (Fin 0)))) c) = Fin 1"
  using assms by (simp add: sum_all_def idiv_scalar_def)

text \<open>
  Claim C1. On a grid with \<open>nr = 20\<close> and \<open>na = 30\<close>, when the raw reflectance array holds
  the photon count in its first bin (bin \<open>(1,1)\<close> of the specification) and 0 in every
  other bin, the total \<open>rd\<close> that \<open>process_output\<close> returns is exactly 1, for every \<open>dr\<close>,
  \<open>da\<close> and \<open>dz \<noteq> 0\<close>: the division by the photon count and the sum are made before the
  rescaling, which does not touch the total.
\<close>

theorem process_output_unit_reflectance:
  assumes "shapes_ok input_data output h"
    and "nr input_data = 20" and "na input_data = 30"
    and "np input_data \<noteq> 0" and "dz input_data \<noteq> 0"
    and "h ! rd_ra output =
           Array2 30 ((Fin (real_of_int (np input_data)) # replicate 29 (Fin 0))
                        # replicate 19 (replicate 30 (Fin 0)))"
  shows "\<exists>res. fst (process_output input_data output h) = Inr res \<and> rd res = Some (Fin 1)"
  unfolding process_output_result [OF assms(1)]
  using assms(4,5) by (simp add: assms(6) sum_all_single_hit)





theorem process_output_unit_reflectance_witness:
  "\<exists>res. fst (process_output grid_c1 (raw_output 0 1 2) heap_c1) = Inr res
         \<and> rd res = Some (Fin 1)"
proof -
  have sh: "shapes_ok grid_c1 (raw_output 0 1 2) heap_c1"
    by (simp add: shapes_ok_def grid_c1_def raw_output_def heap_c1_def wf_array2_def nrows_def
        list_all_iff)
  show ?thesis
    by (rule process_output_unit_reflectance [OF sh])
       (simp_all add: grid_c1_def raw_output_def heap_c1_def)
qed

section \<open>Properties of the radial sampling\<close>

lemma PchipInterpolator_Inr:
  assumes "PchipInterpolator x y = Inr ip"
  shows "breaks ip = x" and "2 \<le> length x" and "length y = length x"
    and "list_all is_fin y" and "sorted_wrt (<) x"
    and "coeffs ip = map (hermite_coeffs x (map fin_val y) (find_derivatives x (map fin_val y)))
                         [0..<length x - 1]"
  using assms by (auto simp: PchipInterpolator_def split: if_splits)

lemma strict_sorted_hd_Min:
  assumes "sorted_wrt (<) (x :: real list)" and "x \<noteq> []"
  shows "hd x = Min (set x)" and "last x = Max (set x)"
proof -
  have s: "sorted x" using assms(1) by (rule strict_sorted_imp_sorted)
  have "\<forall>b \<in> set x. hd x \<le> b"
    using s assms(2) by (cases x) auto
  then show "hd x = Min (set x)"
    using assms(2) by (intro Min_eqI [symmetric]) auto
  have "\<forall>b \<in> set x. b \<le> last x"
  proof
    fix b assume "b \<in> set x"
    then obtain j where j: "j < length x" "x ! j = b" by (auto simp: in_set_conv_nth)
    have "x ! j \<le> x ! (length x - 1)"
      using j(1) by (intro sorted_nth_mono [OF s]) simp_all
    then show "b \<le> last x" using j(2) assms(2) by (simp add: last_conv_nth)
  qed
  then show "last x = Max (set x)"
    using assms(2) by (intro Max_eqI [symmetric]) auto
qed

lemma pchip_call_outside:
  assumes "PchipInterpolator x y = Inr ip"
    and "q < Min (set x) \<or> Max (set x) < q"
  shows "pchip_call ip q = NaN"
proof -
  have ne: "x \<noteq> []" using PchipInterpolator_Inr(2) [OF assms(1)] by auto
  have "hd x = Min (set x)" "last x = Max (set x)"
    using strict_sorted_hd_Min [OF PchipInterpolator_Inr(5) [OF assms(1)] ne] by simp_all
  then show ?thesis
    using assms(2) PchipInterpolator_Inr(1) [OF assms(1)]
    by (auto simp: pchip_call_def)
qed

lemma hermite_right_end:
  fixes dx :: real
  assumes "dx \<noteq> 0"
  shows "((d0 + d1 - 2 * ((y1 - y0) / dx)) / dx / dx) * dx ^ 3
         + (((y1 - y0) / dx - d0) / dx - (d0 + d1 - 2 * ((y1 - y0) / dx)) / dx) * dx ^ 2
         + d0 * dx + y0 = y1"
  using assms by (simp add: field_simps power2_eq_square power3_eq_cube)

lemma takeWhile_strict_sorted:
  assumes "sorted_wrt (<) (x :: real list)" and "i < length x"
  shows "takeWhile (\<lambda>b. b \<le> x ! i) x = take (Suc i) x"
proof (rule takeWhile_eq_take_P_nth)
  fix j assume "j < Suc i" "j < length x"
  then show "x ! j \<le> x ! i"
    using assms sorted_wrt_nth_less [OF assms(1), of j i] by (cases "j = i") auto
next
  assume "Suc i < length x"
  then show "\<not> x ! Suc i \<le> x ! i"
    using sorted_wrt_nth_less [OF assms(1), of i "Suc i"] by simp
qed

lemma pchip_call_knot:
  assumes "PchipInterpolator x y = Inr ip" and "i < length x"
  shows "pchip_call ip (x ! i) = y ! i"
proof -
  note f = PchipInterpolator_Inr [OF assms(1)]
  let ?n = "length x"
  let ?yv = "map fin_val y"
  let ?d = "find_derivatives x ?yv"
  have ne: "x \<noteq> []" using f(2) by auto
  have srt: "sorted x" using f(5) by (rule strict_sorted_imp_sorted)
  have fin: "Fin (?yv ! i) = y ! i"
  proof -
    have "is_fin (y ! i)" using f(3,4) assms(2) by (simp add: list_all_length)
    then show ?thesis using f(3) assms(2) by (cases "y ! i") simp_all
  qed
  have "x ! 0 \<le> x ! i"
    using assms(2) by (intro sorted_nth_mono [OF srt]) simp_all
  then have lo: "hd x \<le> x ! i" using ne by (simp add: hd_conv_nth)
  have "x ! i \<le> x ! (length x - 1)"
    using assms(2) by (intro sorted_nth_mono [OF srt]) simp_all
  then have hi: "x ! i \<le> last x" using ne by (simp add: last_conv_nth)
  show ?thesis
  proof (cases "i = ?n - 1")
    case True
    then have i1: "i = Suc (?n - 2)" using f(2) by simp
    have last: "x ! i = last x" using True ne by (simp add: last_conv_nth)
    have fi: "find_interval x (x ! i) = ?n - 2"
      by (simp add: find_interval_def last)
    have k: "?n - 2 < ?n - 1" using f(2) by simp
    have c: "coeffs ip ! (?n - 2) = hermite_coeffs x ?yv ?d (?n - 2)"
      using k by (simp add: f(6))
    have "Suc (?n - 2) < ?n" using f(2) by simp
    then have "x ! (?n - 2) < x ! Suc (?n - 2)"
      by (intro sorted_wrt_nth_less [OF f(5)]) simp_all
    then have dx: "x ! Suc (?n - 2) - x ! (?n - 2) \<noteq> 0" by simp
    have "pchip_call ip (x ! i) = Fin (?yv ! Suc (?n - 2))"
      using lo hi dx hermite_right_end [OF dx]
      by (simp add: pchip_call_def f(1) fi c hermite_coeffs_def Let_def i1 [symmetric])
    then show ?thesis using fin i1 by simp
  next
    case False
    then have lt: "i < ?n - 1" using assms(2) by simp
    have "x ! i < x ! (?n - 1)"
      using sorted_wrt_nth_less [OF f(5), of i "?n - 1"] lt by simp
    then have nl: "x ! i \<noteq> last x" using ne by (simp add: last_conv_nth)
    have fi: "find_interval x (x ! i) = i"
      using nl assms(2) by (simp add: find_interval_def takeWhile_strict_sorted [OF f(5) assms(2)])
    have c: "coeffs ip ! i = hermite_coeffs x ?yv ?d i"
      using lt by (simp add: f(6))
    have "pchip_call ip (x ! i) = Fin (?yv ! i)"
      using lo hi by (simp add: pchip_call_def f(1) fi c hermite_coeffs_def Let_def)
    then show ?thesis using fin by simp
  qed
qed

lemma get_analysis_data_Inr:
  assumes "get_analysis_data self_input self_output start_dist end_dist step = Inr res"
  shows "\<exists>i_distances ip.
           PchipInterpolator (r_axis res) (rd_values res) = Inr ip
         \<and> df_p_only res
             = zip i_distances (map (\<lambda>q. nan_to_num (pchip_call ip q) 0) i_distances)
         \<and> r_axis res = map (\<lambda>i. real (i + 1) * dr self_input - dr self_input / 2)
                             [0..<nat (nr self_input)]"
proof -
  let ?rindex = "map (\<lambda>i. real (i + 1) * dr self_input - dr self_input / 2)
                     [0..<nat (nr self_input)]"
  from assms obtain i_distances
    where a: "np_arange start_dist (end_dist + step) step = Inr i_distances"
    by (cases "np_arange start_dist (end_dist + step) step")
       (simp_all add: get_analysis_data_def)
  from assms a obtain profile where b: "Option.bind self_output rd_r = Some profile"
    by (cases "Option.bind self_output rd_r") (simp_all add: get_analysis_data_def)
  from assms a b obtain ip where c: "PchipInterpolator ?rindex profile = Inr ip"
    by (cases "PchipInterpolator ?rindex profile") (simp_all add: get_analysis_data_def)
  have "res = \<lparr> df_p_only = zip i_distances
                   (map (\<lambda>q. nan_to_num (pchip_call ip q) 0) i_distances),
                r_axis = ?rindex, rd_values = profile,
                file_P_reflectance = sort (map (\<lambda>q. nan_to_num (pchip_call ip q) 0)
                                              i_distances) \<rparr>"
    using assms a b c by (simp add: get_analysis_data_def Let_def)
  then show ?thesis using c by auto
qed

lemma in_zip_map:
  assumes "(q, p) \<in> set (zip xs (map f xs))"
  shows "p = f q"
  using assms by (auto simp: in_set_zip)


text \<open>
  Claim C5. Whenever \<open>get_analysis_data\<close> returns, every row of its table whose distance
  lies strictly below the smallest or strictly above the largest radial coordinate
  \<open>i * dr - dr / 2\<close> (\<open>i = 1..nr\<close>) has the value 0: the interpolator is built with
  \<open>extrapolate=False\<close> and answers \<open>nan\<close> there, which \<open>np.nan_to_num(..., nan=0.0)\<close>
  turns into 0.
\<close>

theorem get_analysis_data_no_extrapolation:
  assumes "get_analysis_data self_input self_output start_dist end_dist step = Inr res"
    and "(q, p) \<in> set (df_p_only res)"
    and "q < Min (set (r_axis res)) \<or> Max (set (r_axis res)) < q"
  shows "p = 0
       \<and> r_axis res = map (\<lambda>i. real (i + 1) * dr self_input - dr self_input / 2)
                           [0..<nat (nr self_input)]"
proof -
  from get_analysis_data_Inr [OF assms(1)] obtain i_distances ip
    where ip: "PchipInterpolator (r_axis res) (rd_values res) = Inr ip"
      and df: "df_p_only res
                 = zip i_distances (map (\<lambda>q. nan_to_num (pchip_call ip q) 0) i_distances)"
      and ax: "r_axis res = map (\<lambda>i. real (i + 1) * dr self_input - dr self_input / 2)
                               [0..<nat (nr self_input)]"
    by blast
  have "p = nan_to_num (pchip_call ip q) 0"
    using assms(2) unfolding df by (rule in_zip_map)
  then have "p = 0"
    using pchip_call_outside [OF ip assms(3)] by simp
  then show ?thesis using ax by simp
qed

text \<open>
  Claim C6. Whenever \<open>get_analysis_data\<close> returns, a row of its table whose distance is
  exactly the bin midpoint \<open>(i + 1) * dr - dr / 2\<close> of the radial profile has the value of
  the profile in that bin: the piecewise cubic passes through its knots, at the left end
  of each interval by its constant term and at the last knot by the Hermite conditions.
\<close>

theorem get_analysis_data_round_trip:
  assumes "get_analysis_data self_input self_output start_dist end_dist step = Inr res"
    and "(q, p) \<in> set (df_p_only res)"
    and "i < length (r_axis res)" and "q = r_axis res ! i"
  shows "Fin p = rd_values res ! i
       \<and> r_axis res ! i = real (i + 1) * dr self_input - dr self_input / 2"
proof -
  from get_analysis_data_Inr [OF assms(1)] obtain i_distances ip
    where ip: "PchipInterpolator (r_axis res) (rd_values res) = Inr ip"
      and df: "df_p_only res
                 = zip i_distances (map (\<lambda>q. nan_to_num (pchip_call ip q) 0) i_distances)"
      and ax: "r_axis res = map (\<lambda>i. real (i + 1) * dr self_input - dr self_input / 2)
                               [0..<nat (nr self_input)]"
    by blast
  have "p = nan_to_num (pchip_call ip q) 0"
    using assms(2) unfolding df by (rule in_zip_map)
  moreover have "pchip_call ip q = rd_values res ! i"
    unfolding assms(4) using ip assms(3) by (rule pchip_call_knot)
  moreover have "is_fin (rd_values res ! i)"
    using PchipInterpolator_Inr(3,4) [OF ip] assms(3) by (simp add: list_all_length)
  ultimately have "Fin p = rd_values res ! i"
    by (cases "rd_values res ! i") simp_all
  moreover have "r_axis res ! i = real (i + 1) * dr self_input - dr self_input / 2"
    using assms(3) by (subst ax) (simp add: ax)
  ultimately show ?thesis by simp
qed

lemma analysis_two_outside:
  "get_analysis_data grid_two (Some output_two) 0 2 1 =
     Inr \<lparr> df_p_only = [(0, 0), (1, 2), (2, 0)], r_axis = [1 / 2, 3 / 2],
           rd_values = [Fin 1, Fin 3], file_P_reflectance = [0, 0, 2] \<rparr>"
  by (simp add: get_analysis_data_def grid_two_def output_two_def np_arange_def
      PchipInterpolator_def pchip_call_def find_interval_def hermite_coeffs_def
      find_derivatives_def Let_def upt_rec)

lemma analysis_two_knots:
  "get_analysis_data grid_two (Some output_two) (1 / 2) (3 / 2) 1 =
     Inr \<lparr> df_p_only = [(1 / 2, 1), (3 / 2, 3)], r_axis = [1 / 2, 3 / 2],
           rd_values = [Fin 1, Fin 3], file_P_reflectance = [1, 3] \<rparr>"
  by (simp add: get_analysis_data_def grid_two_def output_two_def np_arange_def
      PchipInterpolator_def pchip_call_def find_interval_def hermite_coeffs_def
      find_derivatives_def Let_def upt_rec)

theorem get_analysis_data_no_extrapolation_witness:
  "get_analysis_data grid_two (Some output_two) 0 2 1 =
     Inr \<lparr> df_p_only = [(0, 0), (1, 2), (2, 0)], r_axis = [1 / 2, 3 / 2],
           rd_values = [Fin 1, Fin 3], file_P_reflectance = [0, 0, 2] \<rparr>
   \<and> Max (set [1 / 2, 3 / 2 :: real]) < 2
   \<and> snd (df_p_only \<lparr> df_p_only = [(0, 0), (1, 2), (2, 0 :: real)], r_axis = [1 / 2, 3 / 2],
           rd_values = [Fin 1, Fin 3], file_P_reflectance = [0, 0, 2] \<rparr> ! 2) = 0"
proof -
  let ?res = "\<lparr> df_p_only = [(0, 0), (1, 2), (2, 0 :: real)], r_axis = [1 / 2, 3 / 2],
           rd_values = [Fin 1, Fin 3], file_P_reflectance = [0, 0, 2] \<rparr>"
  have m: "Max (set [1 / 2, 3 / 2 :: real]) < 2" by simp
  have "snd (df_p_only ?res ! 2) = 0
        \<and> r_axis ?res = map (\<lambda>i. real (i + 1) * dr grid_two - dr grid_two / 2)
                             [0..<nat (nr grid_two)]"
    by (rule get_analysis_data_no_extrapolation
          [OF analysis_two_outside, of "fst (df_p_only ?res ! 2)"]) simp_all
  then show ?thesis using analysis_two_outside m by simp
qed

theorem get_analysis_data_round_trip_witness:
  "get_analysis_data grid_two (Some output_two) (1 / 2) (3 / 2) 1 =
     Inr \<lparr> df_p_only = [(1 / 2, 1), (3 / 2, 3)], r_axis = [1 / 2, 3 / 2],
           rd_values = [Fin 1, Fin 3], file_P_reflectance = [1, 3] \<rparr>
   \<and> Fin (snd (df_p_only \<lparr> df_p_only = [(1 / 2, 1), (3 / 2, 3 :: real)],
           r_axis = [1 / 2, 3 / 2], rd_values = [Fin 1, Fin 3],
           file_P_reflectance = [1, 3] \<rparr> ! 1)) = Fin 3"
proof -
  let ?res = "\<lparr> df_p_only = [(1 / 2, 1), (3 / 2, 3 :: real)], r_axis = [1 / 2, 3 / 2],
           rd_values = [Fin 1, Fin 3], file_P_reflectance = [1, 3] \<rparr>"
  have "Fin (snd (df_p_only ?res ! 1)) = rd_values ?res ! 1
        \<and> r_axis ?res ! 1 = real (1 + 1) * dr grid_two - dr grid_two / 2"
    by (rule get_analysis_data_round_trip
          [OF analysis_two_knots, of "fst (df_p_only ?res ! 1)"]) simp_all
  then show ?thesis using analysis_two_knots by simp
qed

end
